theory Spec2Isabelle
  imports Main
begin

section \<open>Google Forms MCP gateway: a shallow embedding of main.py\<close>

text \<open>
  The gateway is one Python module. Its two stateful parts are the OAuth callback, which
  writes the token store, and the \<^verbatim>\<open>/mcp\<close> dispatcher, which reads it before any upstream
  call. Request bodies are parsed JSON, handled by the code as plain dicts, so the model
  keeps them as JSON values and writes out every exception that a lookup can raise.
\<close>

subsection \<open>JSON values and the Python operations used on them\<close>

text \<open>
  A parsed JSON document. An object is an association list in key order; lookup takes
  the first binding of a key (a parsed dict holds each key once). Numbers are integers:
  no arithmetic or comparison on numbers occurs in the module.
\<close>

datatype json =
    JNull
  | JBool bool
  | JInt int
  | JStr string
  | JArr "json list"
  | JObj "(string \<times> json) list"

text \<open>The exceptions the module can raise; \<open>UpstreamError\<close> is whatever a library call raises.\<close>

datatype exn =
    KeyError string
  | TypeError
  | AttributeError
  | UpstreamError string

text \<open>\<^verbatim>\<open>d.get(k, default)\<close>: only a dict has the method.\<close>

fun py_get :: "json \<Rightarrow> string \<Rightarrow> json \<Rightarrow> exn + json" where
  "py_get (JObj kvs) k d = Inr (case map_of kvs k of None \<Rightarrow> d | Some v \<Rightarrow> v)"
| "py_get _ k d = Inl AttributeError"

text \<open>
  \<^verbatim>\<open>d[k]\<close> with a string key: a dict raises KeyError on a missing key; a list, a string,
  a number, a boolean and None raise TypeError.
\<close>

fun py_getitem :: "json \<Rightarrow> string \<Rightarrow> exn + json" where
  "py_getitem (JObj kvs) k = (case map_of kvs k of None \<Rightarrow> Inl (KeyError k) | Some v \<Rightarrow> Inr v)"
| "py_getitem _ k = Inl TypeError"

text \<open>Reading a field of a JSON object, for stating properties of envelopes.\<close>

fun field :: "json \<Rightarrow> string \<Rightarrow> json option" where
  "field (JObj kvs) k = map_of kvs k"
| "field _ k = None"

text \<open>Decimal digits of a natural number, as \<^verbatim>\<open>str\<close> prints them.\<close>

function str_nat :: "nat \<Rightarrow> string" where
  "str_nat n = (if n < 10 then [''0123456789'' ! n]
                else str_nat (n div 10) @ [''0123456789'' ! (n mod 10)])"
  by pat_completeness auto
termination
  by (relation "measure (\<lambda>n. n)") auto

text \<open>
  What an f-string substitutes for a value, on the values that reach one here: a list
  or a dict as user id is rejected as unhashable before any message is formatted.
\<close>

fun py_str :: "json \<Rightarrow> string" where
  "py_str (JStr s) = s"
| "py_str JNull = ''None''"
| "py_str (JBool b) = (if b then ''True'' else ''False'')"
| "py_str (JInt i) = (if i < 0 then ''-'' @ str_nat (nat (- i)) else str_nat (nat i))"

text \<open>\<^verbatim>\<open>s.rstrip("/")\<close>\<close>

definition rstrip_slash :: "string \<Rightarrow> string" where
  "rstrip_slash s = rev (dropWhile (\<lambda>c. c = CHR ''/'') (rev s))"

subsection \<open>Configuration\<close>

text \<open>The three environment variables read at import time.\<close>

record config =
  GOOGLE_CLIENT_ID :: "string option"
  GOOGLE_CLIENT_SECRET :: "string option"
  env_BASE_URL :: "string option"

definition SCOPES :: "string list" where
  "SCOPES = [''https://www.googleapis.com/auth/forms.body'',
             ''https://www.googleapis.com/auth/forms.responses.readonly'']"

definition BASE_URL :: "config \<Rightarrow> string" where
  "BASE_URL cfg = rstrip_slash (case env_BASE_URL cfg of None \<Rightarrow> [] | Some s \<Rightarrow> s)"

subsection \<open>Token store\<close>

record credential_record =
  token :: string
  refresh_token :: "string option"

type_synonym token_store = "string \<rightharpoonup> credential_record"

text \<open>
  Modelled from the spec: \<^verbatim>\<open>tokens.py\<close> (\<^verbatim>\<open>load_tokens\<close>, \<^verbatim>\<open>save_tokens\<close>) is not among the
  sources. The spec gives \<^verbatim>\<open>load()\<close> as the persisted mapping (an unreadable medium counts
  as the empty mapping) and \<^verbatim>\<open>save(m)\<close> as replacing it whole. The state is the persisted
  mapping; storage failures of \<^verbatim>\<open>save\<close> are not modelled.
\<close>

definition load_tokens :: "token_store \<Rightarrow> token_store" where
  "load_tokens persisted = persisted"

definition save_tokens :: "token_store \<Rightarrow> token_store \<Rightarrow> token_store" where
  "save_tokens tokens persisted = tokens"

subsection \<open>Upstream collaborators and the effects the module has on them\<close>

text \<open>The arguments of \<^verbatim>\<open>google.oauth2.credentials.Credentials(...)\<close>.\<close>

record credentials =
  cred_token :: string
  cred_refresh_token :: "string option"
  token_uri :: string
  client_id :: "string option"
  client_secret :: "string option"
  scopes :: "string list"

text \<open>
  The Forms API behind \<^verbatim>\<open>build("forms", "v1", credentials=creds)\<close>: what
  \<^verbatim>\<open>forms().get(formId=f).execute()\<close> and
  \<^verbatim>\<open>forms().responses().list(formId=f, pageSize=n).execute()\<close> answer, or raise.
\<close>

record forms_backend =
  forms_get :: "credentials \<Rightarrow> json \<Rightarrow> exn + json"
  responses_list :: "credentials \<Rightarrow> json \<Rightarrow> json \<Rightarrow> exn + json"

text \<open>What \<^verbatim>\<open>flow.credentials\<close> holds after a successful \<^verbatim>\<open>flow.fetch_token\<close>.\<close>

record flow_credentials =
  flow_token :: string
  flow_refresh_token :: "string option"

text \<open>Every access to the store or to an upstream service, in the order it happens.\<close>

datatype event =
    Load_tokens
  | Save_tokens
  | Fetch_token string
  | Build_credentials credentials
  | Forms_get credentials json
  | Responses_list credentials json json

subsection \<open>Helpers\<close>

definition bind_exn :: "exn + 'a \<Rightarrow> ('a \<Rightarrow> exn + 'b) \<Rightarrow> exn + 'b" where
  "bind_exn m f = (case m of Inl e \<Rightarrow> Inl e | Inr x \<Rightarrow> f x)"

definition get_user_id :: "json \<Rightarrow> exn + json" where
  "get_user_id payload =
     bind_exn (py_get payload ''meta'' (JObj []))
       (\<lambda>meta. py_get meta ''user_id'' (JStr ''default''))"

definition auth_error :: "config \<Rightarrow> json \<Rightarrow> json \<Rightarrow> json" where
  "auth_error cfg req_id user_id =
     JObj [(''jsonrpc'', JStr ''2.0''),
           (''id'', req_id),
           (''error'',
            JObj [(''code'', JInt 401),
                  (''message'',
                   JStr (''Google Forms not connected for user '' @ [CHR 0x27]
                         @ py_str user_id @ [CHR 0x27] @ ''. Visit '' @ BASE_URL cfg
                         @ ''/auth/google?user_id='' @ py_str user_id))])]"

subsection \<open>OAuth callback\<close>

record callback_request =
  query_params :: "string \<rightharpoonup> string"
  url :: string

text \<open>\<^verbatim>\<open>a or b\<close> on optional strings: None and the empty string are falsy.\<close>

definition py_or :: "string option \<Rightarrow> string option \<Rightarrow> string option" where
  "py_or a b = (if a = None \<or> a = Some [] then b else a)"

text \<open>
  \<^verbatim>\<open>google_callback\<close>. The code exchange \<^verbatim>\<open>flow.fetch_token\<close> is a parameter: from the
  callback URL to the credentials, or the exception raised. The result is the response
  (or the exception), the token store afterwards and the effects.
\<close>

definition google_callback ::
  "(string \<Rightarrow> exn + flow_credentials) \<Rightarrow> token_store \<Rightarrow> callback_request
     \<Rightarrow> (exn + json) \<times> token_store \<times> event list" where
  "google_callback fetch_token persisted request =
     (let code = query_params request ''code'' in
      if code = None \<or> code = Some [] then
        (Inr (JObj [(''status'', JStr ''waiting for google authorization'')]), persisted, [])
      else
        (case fetch_token (url request) of
           Inl e \<Rightarrow> (Inl e, persisted, [Fetch_token (url request)])
         | Inr flow_creds \<Rightarrow>
             (let user_id = (case query_params request ''state'' of
                               None \<Rightarrow> ''default'' | Some s \<Rightarrow> s);
                  tokens = load_tokens persisted;
                  existing_refresh = (case tokens user_id of
                                        None \<Rightarrow> None | Some r \<Rightarrow> refresh_token r);
                  tokens' = tokens(user_id \<mapsto>
                              \<lparr>token = flow_token flow_creds,
                               refresh_token =
                                 py_or (flow_refresh_token flow_creds) existing_refresh\<rparr>)
              in (Inr (JObj [(''status'', JStr ''forms connected successfully''),
                             (''user'', JStr user_id)]),
                  save_tokens tokens' persisted,
                  [Fetch_token (url request), Load_tokens, Save_tokens]))))"

subsection \<open>Google Forms helpers\<close>

text \<open>
  \<^verbatim>\<open>get_forms_service\<close>: None when the user id is not a key of the store. The keys are
  strings, so no other hashable value is one; a list or a dict is unhashable and
  \<^verbatim>\<open>user_id not in tokens\<close> raises TypeError. The service returned by \<^verbatim>\<open>build\<close> is
  represented by the credentials it carries.
\<close>

definition make_credentials :: "config \<Rightarrow> credential_record \<Rightarrow> credentials" where
  "make_credentials cfg r =
     \<lparr>cred_token = token r,
      cred_refresh_token = refresh_token r,
      token_uri = ''https://oauth2.googleapis.com/token'',
      client_id = GOOGLE_CLIENT_ID cfg,
      client_secret = GOOGLE_CLIENT_SECRET cfg,
      scopes = SCOPES\<rparr>"

fun get_forms_service ::
  "config \<Rightarrow> token_store \<Rightarrow> json \<Rightarrow> (exn + credentials option) \<times> event list" where
  "get_forms_service cfg persisted (JStr u) =
     (case load_tokens persisted u of
        None \<Rightarrow> (Inr None, [Load_tokens])
      | Some r \<Rightarrow> (Inr (Some (make_credentials cfg r)),
                   [Load_tokens, Build_credentials (make_credentials cfg r)]))"
| "get_forms_service cfg persisted (JArr xs) = (Inl TypeError, [Load_tokens])"
| "get_forms_service cfg persisted (JObj kvs) = (Inl TypeError, [Load_tokens])"
| "get_forms_service cfg persisted _ = (Inr None, [Load_tokens])"

definition AUTH_REQUIRED :: json where
  "AUTH_REQUIRED = JStr ''AUTH_REQUIRED''"

text \<open>The dict that \<^verbatim>\<open>forms_get_form\<close> builds from the upstream form.\<close>

definition form_summary :: "json \<Rightarrow> exn + json" where
  "form_summary form =
     bind_exn (py_getitem form ''formId'') (\<lambda>form_id.
     bind_exn (py_getitem form ''info'') (\<lambda>info.
     bind_exn (py_getitem info ''title'') (\<lambda>title.
     bind_exn (py_get info ''documentTitle'' JNull) (\<lambda>document_title.
       Inr (JObj [(''formId'', form_id),
                  (''title'', title),
                  (''documentTitle'', document_title)])))))"

definition forms_get_form ::
  "config \<Rightarrow> forms_backend \<Rightarrow> token_store \<Rightarrow> json \<Rightarrow> json \<Rightarrow> (exn + json) \<times> event list" where
  "forms_get_form cfg backend persisted user_id form_id =
     (case get_forms_service cfg persisted user_id of
        (Inl e, evs) \<Rightarrow> (Inl e, evs)
      | (Inr None, evs) \<Rightarrow> (Inr AUTH_REQUIRED, evs)
      | (Inr (Some service), evs) \<Rightarrow>
          (bind_exn (forms_get backend service form_id) form_summary,
           evs @ [Forms_get service form_id]))"

definition forms_list_responses ::
  "config \<Rightarrow> forms_backend \<Rightarrow> token_store \<Rightarrow> json \<Rightarrow> json \<Rightarrow> json
     \<Rightarrow> (exn + json) \<times> event list" where
  "forms_list_responses cfg backend persisted user_id form_id max_results =
     (case get_forms_service cfg persisted user_id of
        (Inl e, evs) \<Rightarrow> (Inl e, evs)
      | (Inr None, evs) \<Rightarrow> (Inr AUTH_REQUIRED, evs)
      | (Inr (Some service), evs) \<Rightarrow>
          (bind_exn (responses_list backend service form_id max_results)
             (\<lambda>res. py_get res ''responses'' (JArr [])),
           evs @ [Responses_list service form_id max_results]))"

subsection \<open>MCP endpoint\<close>

record http_response =
  status_code :: nat
  content :: json

text \<open>A handler that returns a dict is answered with status 200.\<close>

definition returned :: "json \<Rightarrow> http_response" where
  "returned body = \<lparr>status_code = 200, content = body\<rparr>"

definition JSONResponse :: "nat \<Rightarrow> json \<Rightarrow> http_response" where
  "JSONResponse code body = \<lparr>status_code = code, content = body\<rparr>"

definition server_info :: json where
  "server_info =
     JObj [(''serverInfo'',
            JObj [(''name'', JStr ''Multi-User Google Forms MCP''),
                  (''version'', JStr ''0.1.0'')])]"

definition tools :: "json list" where
  "tools =
     [JObj [(''name'', JStr ''forms.get_form''),
            (''description'', JStr ''Get basic information about a Google Form''),
            (''inputSchema'',
             JObj [(''type'', JStr ''object''),
                   (''properties'',
                    JObj [(''form_id'',
                           JObj [(''type'', JStr ''string''),
                                 (''description'', JStr ''Google Form ID'')])]),
                   (''required'', JArr [JStr ''form_id''])])],
      JObj [(''name'', JStr ''forms.list_responses''),
            (''description'', JStr ''List responses of a Google Form''),
            (''inputSchema'',
             JObj [(''type'', JStr ''object''),
                   (''properties'',
                    JObj [(''form_id'',
                           JObj [(''type'', JStr ''string''),
                                 (''description'', JStr ''Google Form ID'')]),
                          (''max_results'',
                           JObj [(''type'', JStr ''integer''),
                                 (''default'', JInt 5)])]),
                   (''required'', JArr [JStr ''form_id''])])]]"

definition method_not_found :: "json \<Rightarrow> http_response" where
  "method_not_found req_id =
     JSONResponse 400
       (JObj [(''jsonrpc'', JStr ''2.0''),
              (''id'', req_id),
              (''error'', JObj [(''code'', JInt (- 32601)),
                                (''message'', JStr ''Method not found'')])])"

text \<open>
  The \<^verbatim>\<open>tools/call\<close> branch of \<^verbatim>\<open>mcp_handler\<close>. \<open>None\<close> is falling out of the branch, to
  the final return of the handler. Both arguments of a tool are read from \<^verbatim>\<open>args\<close>
  before the tool function is entered.
\<close>

definition tools_call ::
  "config \<Rightarrow> forms_backend \<Rightarrow> token_store \<Rightarrow> json \<Rightarrow> json \<Rightarrow> json
     \<Rightarrow> ((exn + http_response) \<times> event list) option" where
  "tools_call cfg backend persisted payload req_id user_id =
     (case py_getitem payload ''params'' of
        Inl e \<Rightarrow> Some (Inl e, [])
      | Inr params \<Rightarrow>
     (case py_getitem params ''name'' of
        Inl e \<Rightarrow> Some (Inl e, [])
      | Inr tool \<Rightarrow>
     (case py_get params ''arguments'' (JObj []) of
        Inl e \<Rightarrow> Some (Inl e, [])
      | Inr args \<Rightarrow>
        if tool = JStr ''forms.get_form'' then
          (case py_getitem args ''form_id'' of
             Inl e \<Rightarrow> Some (Inl e, [])
           | Inr form_id \<Rightarrow>
          (case forms_get_form cfg backend persisted user_id form_id of
             (Inl e, evs) \<Rightarrow> Some (Inl e, evs)
           | (Inr res, evs) \<Rightarrow>
               if res = AUTH_REQUIRED then
                 Some (Inr (returned (auth_error cfg req_id user_id)), evs)
               else
                 Some (Inr (returned
                   (JObj [(''jsonrpc'', JStr ''2.0''),
                          (''id'', req_id),
                          (''result'',
                           JObj [(''content'',
                                  JArr [JObj [(''type'', JStr ''json''),
                                              (''json'', res)]])])])), evs)))
        else if tool = JStr ''forms.list_responses'' then
          (case py_getitem args ''form_id'' of
             Inl e \<Rightarrow> Some (Inl e, [])
           | Inr form_id \<Rightarrow>
          (case py_get args ''max_results'' (JInt 5) of
             Inl e \<Rightarrow> Some (Inl e, [])
           | Inr max_results \<Rightarrow>
          (case forms_list_responses cfg backend persisted user_id form_id max_results of
             (Inl e, evs) \<Rightarrow> Some (Inl e, evs)
           | (Inr res, evs) \<Rightarrow>
               if res = AUTH_REQUIRED then
                 Some (Inr (returned (auth_error cfg req_id user_id)), evs)
               else
                 Some (Inr (returned
                   (JObj [(''jsonrpc'', JStr ''2.0''),
                          (''id'', req_id),
                          (''result'',
                           JObj [(''content'',
                                  JArr [JObj [(''type'', JStr ''json''),
                                              (''json'', res)]])])])), evs))))
        else None)))"

text \<open>
  \<^verbatim>\<open>mcp_handler\<close> on the parsed request body: the response or the exception raised, and
  the effects in order.
\<close>

definition mcp_handler ::
  "config \<Rightarrow> forms_backend \<Rightarrow> token_store \<Rightarrow> json \<Rightarrow> (exn + http_response) \<times> event list" where
  "mcp_handler cfg backend persisted payload =
     (case py_get payload ''method'' JNull of
        Inl e \<Rightarrow> (Inl e, [])
      | Inr method \<Rightarrow>
     (case py_get payload ''id'' JNull of
        Inl e \<Rightarrow> (Inl e, [])
      | Inr req_id \<Rightarrow>
     (case get_user_id payload of
        Inl e \<Rightarrow> (Inl e, [])
      | Inr user_id \<Rightarrow>
        if method = JStr ''initialize'' then
          (Inr (returned (JObj [(''jsonrpc'', JStr ''2.0''),
                                (''id'', req_id),
                                (''result'', server_info)])), [])
        else if method = JStr ''tools/list'' then
          (Inr (returned (JObj [(''jsonrpc'', JStr ''2.0''),
                                (''id'', req_id),
                                (''result'', JObj [(''tools'', JArr tools)])])), [])
        else
          (case (if method = JStr ''tools/call''
                 then tools_call cfg backend persisted payload req_id user_id else None) of
             Some r \<Rightarrow> r
           | None \<Rightarrow> (Inr (method_not_found req_id), [])))))"

section \<open>Properties\<close>

subsection \<open>Auxiliary facts\<close>

lemma get_user_id_obj:
  "get_user_id payload = Inr u \<Longrightarrow> \<exists>kvs. payload = JObj kvs"
  by (cases payload) (simp_all add: get_user_id_def bind_exn_def)

lemma field_Some_obj:
  "field j k = Some v \<Longrightarrow> \<exists>kvs. j = JObj kvs \<and> map_of kvs k = Some v"
  by (cases j) simp_all

text \<open>On an object whose user id resolves, only the dispatch on the method is left.\<close>

lemma mcp_handler_dispatch:
  assumes "get_user_id (JObj kvs) = Inr user_id"
  shows "mcp_handler cfg backend persisted (JObj kvs) =
     (let method = (case map_of kvs ''method'' of None \<Rightarrow> JNull | Some v \<Rightarrow> v);
          req_id = (case map_of kvs ''id'' of None \<Rightarrow> JNull | Some v \<Rightarrow> v)
      in if method = JStr ''initialize'' then
          (Inr (returned (JObj [(''jsonrpc'', JStr ''2.0''),
                                (''id'', req_id),
                                (''result'', server_info)])), [])
        else if method = JStr ''tools/list'' then
          (Inr (returned (JObj [(''jsonrpc'', JStr ''2.0''),
                                (''id'', req_id),
                                (''result'', JObj [(''tools'', JArr tools)])])), [])
        else
          (case (if method = JStr ''tools/call''
                 then tools_call cfg backend persisted (JObj kvs) req_id user_id else None) of
             Some r \<Rightarrow> r
           | None \<Rightarrow> (Inr (method_not_found req_id), [])))"
  using assms by (simp add: mcp_handler_def Let_def)

lemma not_found_of_unknown_method:
  assumes user: "get_user_id payload = Inr user_id"
    and m1: "field payload ''method'' \<noteq> Some (JStr ''initialize'')"
    and m2: "field payload ''method'' \<noteq> Some (JStr ''tools/list'')"
    and m3: "field payload ''method'' \<noteq> Some (JStr ''tools/call'')"
  shows "mcp_handler cfg backend persisted payload =
           (Inr (method_not_found (case field payload ''id'' of None \<Rightarrow> JNull | Some v \<Rightarrow> v)), [])"
proof -
  from user obtain kvs where p: "payload = JObj kvs"
    using get_user_id_obj by blast
  let ?m = "case map_of kvs ''method'' of None \<Rightarrow> JNull | Some v \<Rightarrow> v"
  have "?m \<noteq> JStr ''initialize''" "?m \<noteq> JStr ''tools/list''" "?m \<noteq> JStr ''tools/call''"
    using m1 m2 m3 unfolding p by (auto split: option.splits)
  then show ?thesis
    using user unfolding p by (simp add: mcp_handler_dispatch Let_def)
qed

lemma tools_call_unknown_tool:
  assumes "map_of kvs ''params'' = Some params"
    and "field params ''name'' = Some tool"
    and "tool \<noteq> JStr ''forms.get_form''"
    and "tool \<noteq> JStr ''forms.list_responses''"
  shows "tools_call cfg backend persisted (JObj kvs) req_id user_id = None"
proof -
  from assms(2) obtain ps where ps: "params = JObj ps" "map_of ps ''name'' = Some tool"
    using field_Some_obj by blast
  show ?thesis
    using assms(1,3,4) ps by (simp add: tools_call_def)
qed

lemma not_found_of_unknown_tool:
  assumes user: "get_user_id payload = Inr user_id"
    and meth: "field payload ''method'' = Some (JStr ''tools/call'')"
    and params: "field payload ''params'' = Some params"
    and name: "field params ''name'' = Some tool"
    and t1: "tool \<noteq> JStr ''forms.get_form''"
    and t2: "tool \<noteq> JStr ''forms.list_responses''"
  shows "mcp_handler cfg backend persisted payload =
           (Inr (method_not_found (case field payload ''id'' of None \<Rightarrow> JNull | Some v \<Rightarrow> v)), [])"
proof -
  from user obtain kvs where p: "payload = JObj kvs"
    using get_user_id_obj by blast
  have "tools_call cfg backend persisted (JObj kvs)
          (case map_of kvs ''id'' of None \<Rightarrow> JNull | Some v \<Rightarrow> v) user_id = None"
    using params name t1 t2 unfolding p by (simp add: tools_call_unknown_tool)
  then show ?thesis
    using user meth unfolding p
    by (simp add: mcp_handler_dispatch Let_def)
qed

lemma mcp_handler_tools_call:
  assumes "get_user_id (JObj kvs) = Inr user_id"
    and "map_of kvs ''method'' = Some (JStr ''tools/call'')"
  shows "mcp_handler cfg backend persisted (JObj kvs) =
     (case tools_call cfg backend persisted (JObj kvs)
             (case map_of kvs ''id'' of None \<Rightarrow> JNull | Some v \<Rightarrow> v) user_id of
        Some r \<Rightarrow> r
      | None \<Rightarrow> (Inr (method_not_found (case map_of kvs ''id'' of None \<Rightarrow> JNull | Some v \<Rightarrow> v)), []))"
  using assms by (simp add: mcp_handler_dispatch Let_def)

lemma tools_call_no_form_id:
  assumes "map_of kvs ''params'' = Some (JObj ps)"
    and "map_of ps ''name'' = Some (JStr tool)"
    and "tool = ''forms.get_form'' \<or> tool = ''forms.list_responses''"
    and "py_getitem (case map_of ps ''arguments'' of None \<Rightarrow> JObj [] | Some a \<Rightarrow> a) ''form_id'' = Inl e"
  shows "tools_call cfg backend persisted (JObj kvs) req_id user_id = Some (Inl e, [])"
  using assms by (auto simp add: tools_call_def)

lemma tools_call_get_form:
  assumes "map_of kvs ''params'' = Some (JObj ps)"
    and "map_of ps ''name'' = Some (JStr ''forms.get_form'')"
    and "py_getitem (case map_of ps ''arguments'' of None \<Rightarrow> JObj [] | Some a \<Rightarrow> a) ''form_id'' = Inr form_id"
  shows "tools_call cfg backend persisted (JObj kvs) req_id user_id =
     (case forms_get_form cfg backend persisted user_id form_id of
        (Inl e, evs) \<Rightarrow> Some (Inl e, evs)
      | (Inr res, evs) \<Rightarrow>
          if res = AUTH_REQUIRED then
            Some (Inr (returned (auth_error cfg req_id user_id)), evs)
          else
            Some (Inr (returned
              (JObj [(''jsonrpc'', JStr ''2.0''),
                     (''id'', req_id),
                     (''result'',
                      JObj [(''content'',
                             JArr [JObj [(''type'', JStr ''json''),
                                         (''json'', res)]])])])), evs))"
  using assms by (simp add: tools_call_def)

lemma py_getitem_Inr_obj:
  "py_getitem j k = Inr v \<Longrightarrow> \<exists>kvs. j = JObj kvs \<and> map_of kvs k = Some v"
  by (cases j) (simp_all split: option.splits)

lemma tools_call_list_responses:
  assumes "map_of kvs ''params'' = Some (JObj ps)"
    and "map_of ps ''name'' = Some (JStr ''forms.list_responses'')"
    and "(case map_of ps ''arguments'' of None \<Rightarrow> JObj [] | Some a \<Rightarrow> a) = JObj as"
    and "map_of as ''form_id'' = Some form_id"
  shows "tools_call cfg backend persisted (JObj kvs) req_id user_id =
     (case forms_list_responses cfg backend persisted user_id form_id
             (case map_of as ''max_results'' of None \<Rightarrow> JInt 5 | Some n \<Rightarrow> n) of
        (Inl e, evs) \<Rightarrow> Some (Inl e, evs)
      | (Inr res, evs) \<Rightarrow>
          if res = AUTH_REQUIRED then
            Some (Inr (returned (auth_error cfg req_id user_id)), evs)
          else
            Some (Inr (returned
              (JObj [(''jsonrpc'', JStr ''2.0''),
                     (''id'', req_id),
                     (''result'',
                      JObj [(''content'',
                             JArr [JObj [(''type'', JStr ''json''),
                                         (''json'', res)]])])])), evs))"
  using assms by (simp add: tools_call_def)

lemma forms_get_form_no_record:
  "persisted u = None \<Longrightarrow>
     forms_get_form cfg backend persisted (JStr u) form_id = (Inr AUTH_REQUIRED, [Load_tokens])"
  by (simp add: forms_get_form_def load_tokens_def)

lemma forms_list_responses_no_record:
  "persisted u = None \<Longrightarrow>
     forms_list_responses cfg backend persisted (JStr u) form_id n
       = (Inr AUTH_REQUIRED, [Load_tokens])"
  by (simp add: forms_list_responses_def load_tokens_def)

text \<open>Without a stored record, a call of a recognised tool either stops at a missing
  \<open>form_id\<close> or answers with the authorization error.\<close>
lemma tools_call_no_record:
  assumes params: "map_of kvs ''params'' = Some (JObj ps)"
    and name: "map_of ps ''name'' = Some (JStr tool)"
    and tool: "tool = ''forms.get_form'' \<or> tool = ''forms.list_responses''"
    and none: "persisted u = None"
  shows "tools_call cfg backend persisted (JObj kvs) req_id (JStr u) =
     (case py_getitem (case map_of ps ''arguments'' of None \<Rightarrow> JObj [] | Some a \<Rightarrow> a) ''form_id'' of
        Inl e \<Rightarrow> Some (Inl e, [])
      | Inr form_id \<Rightarrow> Some (Inr (returned (auth_error cfg req_id (JStr u))), [Load_tokens]))"
proof (cases "py_getitem (case map_of ps ''arguments'' of None \<Rightarrow> JObj [] | Some a \<Rightarrow> a) ''form_id''")
  case (Inl e)
  then show ?thesis
    using tools_call_no_form_id [OF params name tool Inl] by simp
next
  case (Inr form_id)
  then obtain as where as: "(case map_of ps ''arguments'' of None \<Rightarrow> JObj [] | Some a \<Rightarrow> a) = JObj as"
      "map_of as ''form_id'' = Some form_id"
    using py_getitem_Inr_obj by blast
  from tool show ?thesis
  proof
    assume "tool = ''forms.get_form''"
    then show ?thesis
      using tools_call_get_form [OF params _ Inr] name Inr none
      by (simp add: forms_get_form_no_record)
  next
    assume "tool = ''forms.list_responses''"
    then show ?thesis
      using tools_call_list_responses [OF params _ as] name Inr none
      by (simp add: forms_list_responses_no_record)
  qed
qed

lemma mcp_handler_no_record:
  assumes user: "get_user_id payload = Inr (JStr u)"
    and none: "persisted u = None"
    and meth: "field payload ''method'' = Some (JStr ''tools/call'')"
    and params: "field payload ''params'' = Some (JObj ps)"
    and name: "map_of ps ''name'' = Some (JStr tool)"
    and tool: "tool = ''forms.get_form'' \<or> tool = ''forms.list_responses''"
  shows "mcp_handler cfg backend persisted payload =
     (case py_getitem (case map_of ps ''arguments'' of None \<Rightarrow> JObj [] | Some a \<Rightarrow> a) ''form_id'' of
        Inl e \<Rightarrow> (Inl e, [])
      | Inr form_id \<Rightarrow>
          (Inr (returned (auth_error cfg (case field payload ''id'' of None \<Rightarrow> JNull | Some v \<Rightarrow> v)
                            (JStr u))), [Load_tokens]))"
proof -
  from user obtain kvs where p: "payload = JObj kvs"
    using get_user_id_obj by blast
  have params': "map_of kvs ''params'' = Some (JObj ps)"
    using params unfolding p by simp
  show ?thesis
    using user meth unfolding p
    by (simp add: mcp_handler_tools_call tools_call_no_record [where persisted = persisted and u = u, OF params' name tool none]
          split: sum.splits)
qed

lemma tools_call_id:
  assumes "tools_call cfg backend persisted payload req_id user_id = Some (Inr resp, evs)"
  shows "field (content resp) ''id'' = Some req_id"
  using assms
  by (auto simp add: tools_call_def returned_def auth_error_def
      split: sum.splits prod.splits if_splits)

lemma mcp_handler_id:
  assumes "mcp_handler cfg backend persisted payload = (Inr resp, evs)"
  shows "field (content resp) ''id'' = Some (case field payload ''id'' of None \<Rightarrow> JNull | Some v \<Rightarrow> v)"
proof (cases payload)
  case (JObj kvs)
  let ?rid = "case map_of kvs ''id'' of None \<Rightarrow> JNull | Some v \<Rightarrow> v"
  let ?m = "case map_of kvs ''method'' of None \<Rightarrow> JNull | Some v \<Rightarrow> v"
  from assms obtain uid where uid: "get_user_id (JObj kvs) = Inr uid"
    unfolding JObj by (cases "get_user_id (JObj kvs)") (simp_all add: mcp_handler_def)
  note d = mcp_handler_dispatch [OF uid, of cfg backend persisted]
  consider (init) "?m = JStr ''initialize''" | (list) "?m = JStr ''tools/list''"
    | (call) "?m = JStr ''tools/call''"
    | (other) "?m \<noteq> JStr ''initialize''" "?m \<noteq> JStr ''tools/list''" "?m \<noteq> JStr ''tools/call''"
    by blast
  then show ?thesis
  proof cases
    case init
    then show ?thesis using assms d unfolding JObj by (auto simp add: Let_def returned_def)
  next
    case list
    then show ?thesis using assms d unfolding JObj by (auto simp add: Let_def returned_def)
  next
    case call
    show ?thesis
    proof (cases "tools_call cfg backend persisted (JObj kvs) ?rid uid")
      case None
      then show ?thesis using assms d call unfolding JObj
        by (auto simp add: Let_def method_not_found_def JSONResponse_def)
    next
      case (Some r)
      then have "tools_call cfg backend persisted (JObj kvs) ?rid uid = Some (Inr resp, evs)"
        using assms d call unfolding JObj by (simp add: Let_def)
      then show ?thesis unfolding JObj by (simp add: tools_call_id)
    qed
  next
    case other
    then show ?thesis using assms d unfolding JObj
      by (auto simp add: Let_def method_not_found_def JSONResponse_def)
  qed
qed (use assms in \<open>simp_all add: mcp_handler_def\<close>)

lemma forms_list_responses_record:
  "persisted u = Some r \<Longrightarrow>
     forms_list_responses cfg backend persisted (JStr u) form_id n =
       (bind_exn (responses_list backend (make_credentials cfg r) form_id n)
          (\<lambda>res. py_get res ''responses'' (JArr [])),
        [Load_tokens, Build_credentials (make_credentials cfg r),
         Responses_list (make_credentials cfg r) form_id n])"
  by (simp add: forms_list_responses_def load_tokens_def)

lemma mcp_handler_list_responses:
  assumes user: "get_user_id payload = Inr user_id"
    and meth: "field payload ''method'' = Some (JStr ''tools/call'')"
    and params: "field payload ''params'' = Some (JObj ps)"
    and name: "map_of ps ''name'' = Some (JStr ''forms.list_responses'')"
    and args: "map_of ps ''arguments'' = Some (JObj as)"
    and form_id: "map_of as ''form_id'' = Some form_id"
  shows "mcp_handler cfg backend persisted payload =
     (case forms_list_responses cfg backend persisted user_id form_id
             (case map_of as ''max_results'' of None \<Rightarrow> JInt 5 | Some n \<Rightarrow> n) of
        (Inl e, evs) \<Rightarrow> (Inl e, evs)
      | (Inr res, evs) \<Rightarrow>
          if res = AUTH_REQUIRED then
            (Inr (returned (auth_error cfg
                    (case field payload ''id'' of None \<Rightarrow> JNull | Some v \<Rightarrow> v) user_id)), evs)
          else
            (Inr (returned
              (JObj [(''jsonrpc'', JStr ''2.0''),
                     (''id'', case field payload ''id'' of None \<Rightarrow> JNull | Some v \<Rightarrow> v),
                     (''result'',
                      JObj [(''content'',
                             JArr [JObj [(''type'', JStr ''json''),
                                         (''json'', res)]])])])), evs))"
proof -
  from user obtain kvs where p: "payload = JObj kvs"
    using get_user_id_obj by blast
  have params': "map_of kvs ''params'' = Some (JObj ps)"
    using params unfolding p by simp
  have args': "(case map_of ps ''arguments'' of None \<Rightarrow> JObj [] | Some a \<Rightarrow> a) = JObj as"
    using args by simp
  show ?thesis
    using user meth unfolding p
    by (simp add: mcp_handler_tools_call tools_call_list_responses [OF params' name args' form_id]
          split: sum.splits prod.splits)
qed

lemma mcp_handler_no_form_id:
  assumes user: "get_user_id payload = Inr user_id"
    and meth: "field payload ''method'' = Some (JStr ''tools/call'')"
    and params: "field payload ''params'' = Some (JObj ps)"
    and name: "map_of ps ''name'' = Some (JStr tool)"
    and tool: "tool = ''forms.get_form'' \<or> tool = ''forms.list_responses''"
    and args: "map_of ps ''arguments'' = None
               \<or> (\<exists>as. map_of ps ''arguments'' = Some (JObj as) \<and> map_of as ''form_id'' = None)"
  shows "mcp_handler cfg backend persisted payload = (Inl (KeyError ''form_id''), [])"
proof -
  from user obtain kvs where p: "payload = JObj kvs"
    using get_user_id_obj by blast
  have params': "map_of kvs ''params'' = Some (JObj ps)"
    using params unfolding p by simp
  have "py_getitem (case map_of ps ''arguments'' of None \<Rightarrow> JObj [] | Some a \<Rightarrow> a) ''form_id''
          = Inl (KeyError ''form_id'')"
    using args by auto
  from tools_call_no_form_id [OF params' name tool this]
  show ?thesis
    using user meth unfolding p
    by (simp add: mcp_handler_tools_call)
qed

lemma mcp_handler_tools_list:
  assumes user: "get_user_id payload = Inr user_id"
    and meth: "field payload ''method'' = Some (JStr ''tools/list'')"
  shows "mcp_handler cfg backend persisted payload =
     (Inr (returned (JObj [(''jsonrpc'', JStr ''2.0''),
                           (''id'', case field payload ''id'' of None \<Rightarrow> JNull | Some v \<Rightarrow> v),
                           (''result'', JObj [(''tools'', JArr tools)])])), [])"
proof -
  from user obtain kvs where p: "payload = JObj kvs"
    using get_user_id_obj by blast
  show ?thesis
    using user meth unfolding p
    by (simp add: mcp_handler_dispatch Let_def)
qed

subsection \<open>Properties of the OAuth callback\<close>

text \<open>
  C4. A callback whose query parameters carry no \<^verbatim>\<open>code\<close> returns the waiting status,
  leaves the token store as it was, and performs no effect at all: no code exchange, no
  load and no save of the store.
\<close>

theorem callback_without_code_is_noop:
  assumes "query_params request ''code'' = None"
  shows "google_callback fetch_token persisted request =
           (Inr (JObj [(''status'', JStr ''waiting for google authorization'')]), persisted, [])"
  using assms by (simp add: google_callback_def Let_def)

theorem callback_without_code_is_noop_witness:
  "query_params \<lparr>query_params = [''state'' \<mapsto> ''alice''],
                 url = ''https://x.io/auth/google/callback?state=alice''\<rparr> ''code'' = None
   \<and> google_callback (\<lambda>u. Inr \<lparr>flow_token = ''t2'', flow_refresh_token = Some ''r2''\<rparr>)
         [''alice'' \<mapsto> \<lparr>token = ''t1'', refresh_token = Some ''r1''\<rparr>]
         \<lparr>query_params = [''state'' \<mapsto> ''alice''],
          url = ''https://x.io/auth/google/callback?state=alice''\<rparr>
       = (Inr (JObj [(''status'', JStr ''waiting for google authorization'')]),
          [''alice'' \<mapsto> \<lparr>token = ''t1'', refresh_token = Some ''r1''\<rparr>], [])"
  using callback_without_code_is_noop
    [of "\<lparr>query_params = [''state'' \<mapsto> ''alice''],
          url = ''https://x.io/auth/google/callback?state=alice''\<rparr>"
        "\<lambda>u. Inr \<lparr>flow_token = ''t2'', flow_refresh_token = Some ''r2''\<rparr>"
        "[''alice'' \<mapsto> \<lparr>token = ''t1'', refresh_token = Some ''r1''\<rparr>]"]
  by simp

text \<open>
  C2, as the claim states it, fails where the exchange yields the empty string as
  refresh token: \<^verbatim>\<open>flow.credentials.refresh_token or existing_refresh\<close> takes the empty
  string for absent, so the stored refresh token stays \<open>r1\<close> and is not the new value.
\<close>

theorem empty_refresh_token_counterexample:
  "fst (snd (google_callback
       (\<lambda>u. Inr \<lparr>flow_token = ''t2'', flow_refresh_token = Some ''''\<rparr>)
       [''alice'' \<mapsto> \<lparr>token = ''t1'', refresh_token = Some ''r1''\<rparr>]
       \<lparr>query_params = [''code'' \<mapsto> ''c'', ''state'' \<mapsto> ''alice''], url = ''u''\<rparr>)) ''alice''
     = Some \<lparr>token = ''t2'', refresh_token = Some ''r1''\<rparr>
   \<and> fst (snd (google_callback
       (\<lambda>u. Inr \<lparr>flow_token = ''t2'', flow_refresh_token = Some ''''\<rparr>)
       [''alice'' \<mapsto> \<lparr>token = ''t1'', refresh_token = Some ''r1''\<rparr>]
       \<lparr>query_params = [''code'' \<mapsto> ''c'', ''state'' \<mapsto> ''alice''], url = ''u''\<rparr>)) ''alice''
     \<noteq> Some \<lparr>token = ''t2'', refresh_token = Some ''''\<rparr>"
  by (simp add: google_callback_def load_tokens_def save_tokens_def py_or_def Let_def)

text \<open>
  C2, amended. Let a callback carry a non-empty code, let its exchange succeed with
  access token \<open>t2\<close>, and let the user named by \<^verbatim>\<open>state\<close> (\<^verbatim>\<open>default\<close> when absent) have
  the stored record \<open>{token: t1, refresh_token: r1}\<close>. If the exchange yields no
  refresh token, or the empty string (which counts as absent), the stored record
  becomes \<open>{token: t2, refresh_token: r1}\<close>; if it yields a non-empty refresh token
  \<open>r2\<close>, the record becomes \<open>{token: t2, refresh_token: r2}\<close>. For every user, a
  refresh token stored before the callback is still a refresh token after it, and a
  non-empty one is never replaced by an absent or empty value.
\<close>

theorem refresh_token_preserved:
  assumes code: "query_params request ''code'' = Some c" "c \<noteq> []"
    and exch: "fetch_token (url request) = Inr \<lparr>flow_token = t2, flow_refresh_token = new_refresh\<rparr>"
    and user: "user_id = (case query_params request ''state'' of None \<Rightarrow> ''default'' | Some s \<Rightarrow> s)"
    and stored: "persisted user_id = Some \<lparr>token = t1, refresh_token = Some r1\<rparr>"
  shows "(new_refresh = None \<longrightarrow>
            fst (snd (google_callback fetch_token persisted request)) user_id
              = Some \<lparr>token = t2, refresh_token = Some r1\<rparr>)
       \<and> (new_refresh = Some [] \<longrightarrow>
            fst (snd (google_callback fetch_token persisted request)) user_id
              = Some \<lparr>token = t2, refresh_token = Some r1\<rparr>)
       \<and> (\<forall>r2. new_refresh = Some r2 \<and> r2 \<noteq> [] \<longrightarrow>
            fst (snd (google_callback fetch_token persisted request)) user_id
              = Some \<lparr>token = t2, refresh_token = Some r2\<rparr>)
       \<and> (\<forall>v r. persisted v = Some r \<and> refresh_token r \<noteq> None \<longrightarrow>
            (\<exists>r'. fst (snd (google_callback fetch_token persisted request)) v = Some r'
                  \<and> refresh_token r' \<noteq> None))
       \<and> (\<forall>v r x. persisted v = Some r \<and> refresh_token r = Some x \<and> x \<noteq> [] \<longrightarrow>
            (\<exists>r' y. fst (snd (google_callback fetch_token persisted request)) v = Some r'
                    \<and> refresh_token r' = Some y \<and> y \<noteq> []))"
  using assms
  by (auto simp add: google_callback_def load_tokens_def save_tokens_def py_or_def Let_def)

theorem refresh_token_preserved_witness:
  "fst (snd (google_callback (\<lambda>u. Inr \<lparr>flow_token = ''t2'', flow_refresh_token = None\<rparr>)
       [''alice'' \<mapsto> \<lparr>token = ''t1'', refresh_token = Some ''r1''\<rparr>]
       \<lparr>query_params = [''code'' \<mapsto> ''c'', ''state'' \<mapsto> ''alice''], url = ''u''\<rparr>)) ''alice''
     = Some \<lparr>token = ''t2'', refresh_token = Some ''r1''\<rparr>
   \<and> fst (snd (google_callback (\<lambda>u. Inr \<lparr>flow_token = ''t2'', flow_refresh_token = Some ''r2''\<rparr>)
       [''alice'' \<mapsto> \<lparr>token = ''t1'', refresh_token = Some ''r1''\<rparr>]
       \<lparr>query_params = [''code'' \<mapsto> ''c'', ''state'' \<mapsto> ''alice''], url = ''u''\<rparr>)) ''alice''
     = Some \<lparr>token = ''t2'', refresh_token = Some ''r2''\<rparr>
   \<and> fst (snd (google_callback (\<lambda>u. Inr \<lparr>flow_token = ''t3'', flow_refresh_token = Some []\<rparr>)
       [''alice'' \<mapsto> \<lparr>token = ''t1'', refresh_token = Some ''r1''\<rparr>]
       \<lparr>query_params = [''code'' \<mapsto> ''c'', ''state'' \<mapsto> ''alice''], url = ''u''\<rparr>)) ''alice''
     = Some \<lparr>token = ''t3'', refresh_token = Some ''r1''\<rparr>"
proof -
  let ?req = "\<lparr>query_params = [''code'' \<mapsto> ''c'', ''state'' \<mapsto> ''alice''], url = ''u''\<rparr>"
  let ?st = "[''alice'' \<mapsto> \<lparr>token = ''t1'', refresh_token = Some ''r1''\<rparr>]"
  have code: "query_params ?req ''code'' = Some ''c''" "''c'' \<noteq> []" by simp_all
  have user: "''alice'' = (case query_params ?req ''state'' of None \<Rightarrow> ''default'' | Some s \<Rightarrow> s)"
    by simp
  have stored: "?st ''alice'' = Some \<lparr>token = ''t1'', refresh_token = Some ''r1''\<rparr>" by simp
  have e1: "(\<lambda>u. Inr \<lparr>flow_token = ''t2'', flow_refresh_token = None\<rparr>) (url ?req)
              = (Inr \<lparr>flow_token = ''t2'', flow_refresh_token = None\<rparr> :: exn + flow_credentials)"
    by simp
  have e2: "(\<lambda>u. Inr \<lparr>flow_token = ''t2'', flow_refresh_token = Some ''r2''\<rparr>) (url ?req)
              = (Inr \<lparr>flow_token = ''t2'', flow_refresh_token = Some ''r2''\<rparr> :: exn + flow_credentials)"
    by simp
  have e3: "(\<lambda>u. Inr \<lparr>flow_token = ''t3'', flow_refresh_token = Some []\<rparr>) (url ?req)
              = (Inr \<lparr>flow_token = ''t3'', flow_refresh_token = Some []\<rparr> :: exn + flow_credentials)"
    by simp
  have n2: "Some ''r2'' = Some ''r2'' \<and> ''r2'' \<noteq> []" by simp
  note a = refresh_token_preserved
    [where persisted = ?st and user_id = "''alice''", OF code e1 user stored,
     THEN conjunct1, rule_format, OF refl]
  note b = refresh_token_preserved
    [where persisted = ?st and user_id = "''alice''", OF code e2 user stored,
     THEN conjunct2, THEN conjunct2, THEN conjunct1, rule_format, OF n2]
  note c = refresh_token_preserved
    [where persisted = ?st and user_id = "''alice''", OF code e3 user stored,
     THEN conjunct2, THEN conjunct1, rule_format, OF refl]
  show ?thesis
    using a b c by (intro conjI)
qed

subsection \<open>Dispatch of unknown methods and tools\<close>

text \<open>
  C3. Let a request be an object whose \<^verbatim>\<open>meta\<close> is absent or an object, so that its user
  id resolves. If its \<^verbatim>\<open>method\<close> is none of \<^verbatim>\<open>initialize\<close>, \<^verbatim>\<open>tools/list\<close> and
  \<^verbatim>\<open>tools/call\<close> (or is absent), the handler answers with status 400 and the error
  envelope with code -32601 and message \<^verbatim>\<open>Method not found\<close>, with no effect.
\<close>

theorem unknown_method_400:
  assumes "get_user_id payload = Inr user_id"
    and "field payload ''method'' \<noteq> Some (JStr ''initialize'')"
    and "field payload ''method'' \<noteq> Some (JStr ''tools/list'')"
    and "field payload ''method'' \<noteq> Some (JStr ''tools/call'')"
  shows "mcp_handler cfg backend persisted payload =
           (Inr \<lparr>status_code = 400,
                 content = JObj [(''jsonrpc'', JStr ''2.0''),
                                 (''id'', case field payload ''id'' of None \<Rightarrow> JNull | Some v \<Rightarrow> v),
                                 (''error'', JObj [(''code'', JInt (- 32601)),
                                                   (''message'', JStr ''Method not found'')])]\<rparr>,
            [])"
  using not_found_of_unknown_method [OF assms]
  by (simp add: method_not_found_def JSONResponse_def)

theorem unknown_method_400_witness:
  "get_user_id (JObj [(''jsonrpc'', JStr ''2.0''), (''id'', JInt 7), (''method'', JStr ''foo'')])
     = Inr (JStr ''default'')
   \<and> mcp_handler \<lparr>GOOGLE_CLIENT_ID = None, GOOGLE_CLIENT_SECRET = None, env_BASE_URL = None\<rparr>
        \<lparr>forms_get = (\<lambda>c f. Inl (UpstreamError ''down'')),
         responses_list = (\<lambda>c f n. Inl (UpstreamError ''down''))\<rparr>
        Map.empty
        (JObj [(''jsonrpc'', JStr ''2.0''), (''id'', JInt 7), (''method'', JStr ''foo'')])
     = (Inr \<lparr>status_code = 400,
             content = JObj [(''jsonrpc'', JStr ''2.0''),
                             (''id'', JInt 7),
                             (''error'', JObj [(''code'', JInt (- 32601)),
                                               (''message'', JStr ''Method not found'')])]\<rparr>,
        [])"
proof -
  have u: "get_user_id (JObj [(''jsonrpc'', JStr ''2.0''), (''id'', JInt 7),
                              (''method'', JStr ''foo'')]) = Inr (JStr ''default'')"
    by (simp add: get_user_id_def bind_exn_def)
  show ?thesis
    using u unknown_method_400
      [OF u, of "\<lparr>GOOGLE_CLIENT_ID = None, GOOGLE_CLIENT_SECRET = None, env_BASE_URL = None\<rparr>"
        "\<lparr>forms_get = (\<lambda>c f. Inl (UpstreamError ''down'')),
          responses_list = (\<lambda>c f n. Inl (UpstreamError ''down''))\<rparr>" Map.empty]
    by simp
qed

text \<open>
  C6. Let a \<^verbatim>\<open>tools/call\<close> request (an object whose user id resolves) have an object
  \<^verbatim>\<open>params\<close> whose \<^verbatim>\<open>name\<close> is neither \<^verbatim>\<open>forms.get_form\<close> nor \<^verbatim>\<open>forms.list_responses\<close>.
  The handler answers with status 400 and the -32601 envelope, with no effect (the store
  is not read, nothing upstream is called), and this is the very answer it gives to any
  request with the same id and an unrecognised top-level method.
\<close>

theorem unknown_tool_is_method_not_found:
  assumes user: "get_user_id payload = Inr user_id"
    and meth: "field payload ''method'' = Some (JStr ''tools/call'')"
    and params: "field payload ''params'' = Some params"
    and name: "field params ''name'' = Some tool"
    and t1: "tool \<noteq> JStr ''forms.get_form''"
    and t2: "tool \<noteq> JStr ''forms.list_responses''"
  shows "mcp_handler cfg backend persisted payload =
           (Inr \<lparr>status_code = 400,
                 content = JObj [(''jsonrpc'', JStr ''2.0''),
                                 (''id'', case field payload ''id'' of None \<Rightarrow> JNull | Some v \<Rightarrow> v),
                                 (''error'', JObj [(''code'', JInt (- 32601)),
                                                   (''message'', JStr ''Method not found'')])]\<rparr>,
            [])
       \<and> (\<forall>other u. get_user_id other = Inr u
              \<and> field other ''method'' \<noteq> Some (JStr ''initialize'')
              \<and> field other ''method'' \<noteq> Some (JStr ''tools/list'')
              \<and> field other ''method'' \<noteq> Some (JStr ''tools/call'')
              \<and> field other ''id'' = field payload ''id''
            \<longrightarrow> mcp_handler cfg backend persisted payload
                  = mcp_handler cfg backend persisted other)"
  using not_found_of_unknown_tool [OF assms]
  by (simp add: method_not_found_def JSONResponse_def not_found_of_unknown_method)

theorem unknown_tool_is_method_not_found_witness:
  "mcp_handler \<lparr>GOOGLE_CLIENT_ID = None, GOOGLE_CLIENT_SECRET = None, env_BASE_URL = None\<rparr>
        \<lparr>forms_get = (\<lambda>c f. Inl (UpstreamError ''down'')),
         responses_list = (\<lambda>c f n. Inl (UpstreamError ''down''))\<rparr>
        [''default'' \<mapsto> \<lparr>token = ''t1'', refresh_token = Some ''r1''\<rparr>]
        (JObj [(''id'', JInt 7), (''method'', JStr ''tools/call''),
               (''params'', JObj [(''name'', JStr ''forms.delete_form''),
                                  (''arguments'', JObj [(''form_id'', JStr ''F'')])])])
     = (Inr \<lparr>status_code = 400,
             content = JObj [(''jsonrpc'', JStr ''2.0''),
                             (''id'', JInt 7),
                             (''error'', JObj [(''code'', JInt (- 32601)),
                                               (''message'', JStr ''Method not found'')])]\<rparr>,
        [])"
proof -
  let ?p = "JObj [(''id'', JInt 7), (''method'', JStr ''tools/call''),
               (''params'', JObj [(''name'', JStr ''forms.delete_form''),
                                  (''arguments'', JObj [(''form_id'', JStr ''F'')])])]"
  have u: "get_user_id ?p = Inr (JStr ''default'')"
    by (simp add: get_user_id_def bind_exn_def)
  show ?thesis
    using unknown_tool_is_method_not_found
      [OF u, of "JObj [(''name'', JStr ''forms.delete_form''),
                       (''arguments'', JObj [(''form_id'', JStr ''F'')])]"
          "JStr ''forms.delete_form''"
          "\<lparr>GOOGLE_CLIENT_ID = None, GOOGLE_CLIENT_SECRET = None, env_BASE_URL = None\<rparr>"
          "\<lparr>forms_get = (\<lambda>c f. Inl (UpstreamError ''down'')),
            responses_list = (\<lambda>c f n. Inl (UpstreamError ''down''))\<rparr>"
          "[''default'' \<mapsto> \<lparr>token = ''t1'', refresh_token = Some ''r1''\<rparr>]"]
    by simp
qed

subsection \<open>Authorization gate\<close>

text \<open>
  C1, as the claim states it, fails on a call that omits \<^verbatim>\<open>form_id\<close>: the handler reads
  \<^verbatim>\<open>args["form_id"]\<close> before it enters the tool function, so the KeyError is raised
  before the store is consulted and no 401 envelope is returned.
\<close>

theorem missing_form_id_precedes_gate_counterexample:
  "mcp_handler \<lparr>GOOGLE_CLIENT_ID = None, GOOGLE_CLIENT_SECRET = None,
                 env_BASE_URL = Some ''https://x.io''\<rparr>
      \<lparr>forms_get = (\<lambda>c f. Inl (UpstreamError ''down'')),
       responses_list = (\<lambda>c f n. Inl (UpstreamError ''down''))\<rparr>
      Map.empty
      (JObj [(''id'', JInt 1), (''method'', JStr ''tools/call''),
             (''params'', JObj [(''name'', JStr ''forms.get_form''), (''arguments'', JObj [])]),
             (''meta'', JObj [(''user_id'', JStr ''alice'')])])
   = (Inl (KeyError ''form_id''), [])"
  by (simp add: mcp_handler_def get_user_id_def bind_exn_def tools_call_def)

text \<open>
  C1, amended. Let \<open>u\<close> be a user with no record in the token store. A \<^verbatim>\<open>tools/call\<close>
  request of \<open>u\<close> for \<^verbatim>\<open>forms.get_form\<close> or \<^verbatim>\<open>forms.list_responses\<close> whose arguments
  carry \<^verbatim>\<open>form_id\<close> is answered (status 200) with the error envelope of code 401 whose
  message names \<open>u\<close> and ends with the recovery URL
  \<^verbatim>\<open><BASE_URL>/auth/google?user_id=<u>\<close>. The envelope is the same for both tools.
\<close>

theorem authorization_error_without_record:
  assumes user: "get_user_id payload = Inr (JStr u)"
    and none: "persisted u = None"
    and meth: "field payload ''method'' = Some (JStr ''tools/call'')"
    and params: "field payload ''params'' = Some (JObj ps)"
    and name: "map_of ps ''name'' = Some (JStr tool)"
    and tool: "tool = ''forms.get_form'' \<or> tool = ''forms.list_responses''"
    and args: "map_of ps ''arguments'' = Some (JObj as)"
    and form_id: "map_of as ''form_id'' = Some form_id"
  shows "fst (mcp_handler cfg backend persisted payload) =
     Inr \<lparr>status_code = 200,
          content =
            JObj [(''jsonrpc'', JStr ''2.0''),
                  (''id'', case field payload ''id'' of None \<Rightarrow> JNull | Some v \<Rightarrow> v),
                  (''error'',
                   JObj [(''code'', JInt 401),
                         (''message'',
                          JStr (''Google Forms not connected for user '' @ [CHR 0x27] @ u
                                @ [CHR 0x27] @ ''. Visit '' @ BASE_URL cfg
                                @ ''/auth/google?user_id='' @ u))])]\<rparr>"
  using mcp_handler_no_record [where persisted = persisted and u = u, OF user none meth params name tool, of cfg backend] args form_id
  by (simp add: returned_def auth_error_def)

theorem authorization_error_without_record_witness:
  "fst (mcp_handler \<lparr>GOOGLE_CLIENT_ID = None, GOOGLE_CLIENT_SECRET = None,
                     env_BASE_URL = Some ''https://x.io/''\<rparr>
      \<lparr>forms_get = (\<lambda>c f. Inl (UpstreamError ''down'')),
       responses_list = (\<lambda>c f n. Inl (UpstreamError ''down''))\<rparr>
      [''bob'' \<mapsto> \<lparr>token = ''t1'', refresh_token = Some ''r1''\<rparr>]
      (JObj [(''id'', JInt 1), (''method'', JStr ''tools/call''),
             (''params'', JObj [(''name'', JStr ''forms.list_responses''),
                                (''arguments'', JObj [(''form_id'', JStr ''F'')])]),
             (''meta'', JObj [(''user_id'', JStr ''alice'')])]))
   = Inr \<lparr>status_code = 200,
          content =
            JObj [(''jsonrpc'', JStr ''2.0''),
                  (''id'', JInt 1),
                  (''error'',
                   JObj [(''code'', JInt 401),
                         (''message'',
                          JStr (''Google Forms not connected for user '' @ [CHR 0x27] @ ''alice''
                                @ [CHR 0x27]
                                @ ''. Visit https://x.io/auth/google?user_id=alice''))])]\<rparr>"
proof -
  let ?p = "JObj [(''id'', JInt 1), (''method'', JStr ''tools/call''),
             (''params'', JObj [(''name'', JStr ''forms.list_responses''),
                                (''arguments'', JObj [(''form_id'', JStr ''F'')])]),
             (''meta'', JObj [(''user_id'', JStr ''alice'')])]"
  have u: "get_user_id ?p = Inr (JStr ''alice'')"
    by (simp add: get_user_id_def bind_exn_def)
  have b: "BASE_URL \<lparr>GOOGLE_CLIENT_ID = None, GOOGLE_CLIENT_SECRET = None,
                     env_BASE_URL = Some ''https://x.io/''\<rparr> = ''https://x.io''"
    by (simp add: BASE_URL_def rstrip_slash_def)
  show ?thesis
    using authorization_error_without_record
      [where persisted = "[''bob'' \<mapsto> \<lparr>token = ''t1'', refresh_token = Some ''r1''\<rparr>]"
         and u = "''alice''" and payload = ?p
         and ps = "[(''name'', JStr ''forms.list_responses''),
                    (''arguments'', JObj [(''form_id'', JStr ''F'')])]"
         and tool = "''forms.list_responses''"
         and as = "[(''form_id'', JStr ''F'')]" and form_id = "JStr ''F''"
         and cfg = "\<lparr>GOOGLE_CLIENT_ID = None, GOOGLE_CLIENT_SECRET = None,
                     env_BASE_URL = Some ''https://x.io/''\<rparr>"
         and backend = "\<lparr>forms_get = (\<lambda>c f. Inl (UpstreamError ''down'')),
                          responses_list = (\<lambda>c f n. Inl (UpstreamError ''down''))\<rparr>", OF u]
      b
    by simp
qed

text \<open>
  C8, as the claim states it, fails on a call that omits \<^verbatim>\<open>form_id\<close>: for a user with no
  stored record the handler then returns no 401 envelope at all; it raises KeyError
  before the store is read.
\<close>

theorem no_envelope_without_form_id_counterexample:
  "mcp_handler \<lparr>GOOGLE_CLIENT_ID = None, GOOGLE_CLIENT_SECRET = None,
                 env_BASE_URL = Some ''https://x.io''\<rparr>
      \<lparr>forms_get = (\<lambda>c f. Inl (UpstreamError ''down'')),
       responses_list = (\<lambda>c f n. Inl (UpstreamError ''down''))\<rparr>
      [''bob'' \<mapsto> \<lparr>token = ''t1'', refresh_token = Some ''r1''\<rparr>]
      (JObj [(''id'', JInt 9), (''method'', JStr ''tools/call''),
             (''params'', JObj [(''name'', JStr ''forms.list_responses'')])])
   = (Inl (KeyError ''form_id''), [])"
  by (simp add: mcp_handler_def get_user_id_def bind_exn_def tools_call_def)

text \<open>
  C8, amended. Let \<open>u\<close> be a user with no record in the token store. Handling a
  \<^verbatim>\<open>tools/call\<close> of \<open>u\<close> for either recognised tool, whatever its arguments, constructs no
  credential and issues no call of the Forms API. Where the arguments carry \<^verbatim>\<open>form_id\<close>,
  the 401 envelope is returned and the read of the store is the only effect; where they
  do not, the lookup of \<^verbatim>\<open>form_id\<close> raises (KeyError when the arguments are absent or an
  object without it) before the store is read, with no effect and no envelope.
\<close>

theorem gate_before_upstream_work:
  assumes user: "get_user_id payload = Inr (JStr u)"
    and none: "persisted u = None"
    and meth: "field payload ''method'' = Some (JStr ''tools/call'')"
    and params: "field payload ''params'' = Some (JObj ps)"
    and name: "map_of ps ''name'' = Some (JStr tool)"
    and tool: "tool = ''forms.get_form'' \<or> tool = ''forms.list_responses''"
  shows "(\<forall>c. Build_credentials c \<notin> set (snd (mcp_handler cfg backend persisted payload)))
       \<and> (\<forall>c f. Forms_get c f \<notin> set (snd (mcp_handler cfg backend persisted payload)))
       \<and> (\<forall>c f n. Responses_list c f n \<notin> set (snd (mcp_handler cfg backend persisted payload)))
       \<and> (\<forall>resp. fst (mcp_handler cfg backend persisted payload) = Inr resp \<longrightarrow>
             resp = returned (auth_error cfg
                      (case field payload ''id'' of None \<Rightarrow> JNull | Some v \<Rightarrow> v) (JStr u)))
       \<and> (\<forall>as f. map_of ps ''arguments'' = Some (JObj as) \<and> map_of as ''form_id'' = Some f \<longrightarrow>
             mcp_handler cfg backend persisted payload =
               (Inr (returned (auth_error cfg
                      (case field payload ''id'' of None \<Rightarrow> JNull | Some v \<Rightarrow> v) (JStr u))),
                [Load_tokens]))
       \<and> (\<forall>e. py_getitem (case map_of ps ''arguments'' of None \<Rightarrow> JObj [] | Some a \<Rightarrow> a)
                  ''form_id'' = Inl e \<longrightarrow>
             mcp_handler cfg backend persisted payload = (Inl e, []))
       \<and> (map_of ps ''arguments'' = None
            \<or> (\<exists>as. map_of ps ''arguments'' = Some (JObj as) \<and> map_of as ''form_id'' = None) \<longrightarrow>
             mcp_handler cfg backend persisted payload = (Inl (KeyError ''form_id''), []))"
proof -
  note h = mcp_handler_no_record
    [where persisted = persisted and u = u, OF user none meth params name tool, of cfg backend]
  have "\<forall>c. Build_credentials c \<notin> set (snd (mcp_handler cfg backend persisted payload))"
    using h by (auto split: sum.splits)
  moreover have "\<forall>c f. Forms_get c f \<notin> set (snd (mcp_handler cfg backend persisted payload))"
    using h by (auto split: sum.splits)
  moreover have "\<forall>c f n. Responses_list c f n
                   \<notin> set (snd (mcp_handler cfg backend persisted payload))"
    using h by (auto split: sum.splits)
  moreover have "\<forall>resp. fst (mcp_handler cfg backend persisted payload) = Inr resp \<longrightarrow>
             resp = returned (auth_error cfg
                      (case field payload ''id'' of None \<Rightarrow> JNull | Some v \<Rightarrow> v) (JStr u))"
    using h by (auto split: sum.splits)
  moreover have "\<forall>as f. map_of ps ''arguments'' = Some (JObj as) \<and> map_of as ''form_id'' = Some f \<longrightarrow>
             mcp_handler cfg backend persisted payload =
               (Inr (returned (auth_error cfg
                      (case field payload ''id'' of None \<Rightarrow> JNull | Some v \<Rightarrow> v) (JStr u))),
                [Load_tokens])"
    using h by (auto split: sum.splits)
  moreover have "\<forall>e. py_getitem (case map_of ps ''arguments'' of None \<Rightarrow> JObj [] | Some a \<Rightarrow> a)
                  ''form_id'' = Inl e \<longrightarrow>
             mcp_handler cfg backend persisted payload = (Inl e, [])"
    using h by (auto split: sum.splits)
  moreover have "map_of ps ''arguments'' = None
            \<or> (\<exists>as. map_of ps ''arguments'' = Some (JObj as) \<and> map_of as ''form_id'' = None) \<longrightarrow>
             mcp_handler cfg backend persisted payload = (Inl (KeyError ''form_id''), [])"
  proof
    assume "map_of ps ''arguments'' = None
            \<or> (\<exists>as. map_of ps ''arguments'' = Some (JObj as) \<and> map_of as ''form_id'' = None)"
    then have "py_getitem (case map_of ps ''arguments'' of None \<Rightarrow> JObj [] | Some a \<Rightarrow> a)
                 ''form_id'' = Inl (KeyError ''form_id'')"
      by auto
    then show "mcp_handler cfg backend persisted payload = (Inl (KeyError ''form_id''), [])"
      using h by simp
  qed
  ultimately show ?thesis by (intro conjI)
qed

theorem gate_before_upstream_work_witness:
  "mcp_handler \<lparr>GOOGLE_CLIENT_ID = None, GOOGLE_CLIENT_SECRET = None,
                 env_BASE_URL = Some ''https://x.io''\<rparr>
      \<lparr>forms_get = (\<lambda>c f. Inr (JObj [(''formId'', f), (''info'', JObj [(''title'', JStr ''T'')])])),
       responses_list = (\<lambda>c f n. Inr (JObj []))\<rparr>
      [''bob'' \<mapsto> \<lparr>token = ''t1'', refresh_token = Some ''r1''\<rparr>]
      (JObj [(''id'', JStr ''a''), (''method'', JStr ''tools/call''),
             (''params'', JObj [(''name'', JStr ''forms.get_form''),
                                (''arguments'', JObj [(''form_id'', JStr ''F'')])]),
             (''meta'', JObj [(''user_id'', JStr ''alice'')])])
   = (Inr (returned (auth_error \<lparr>GOOGLE_CLIENT_ID = None, GOOGLE_CLIENT_SECRET = None,
                                  env_BASE_URL = Some ''https://x.io''\<rparr>
                       (JStr ''a'') (JStr ''alice''))),
      [Load_tokens])
   \<and> mcp_handler \<lparr>GOOGLE_CLIENT_ID = None, GOOGLE_CLIENT_SECRET = None,
                 env_BASE_URL = Some ''https://x.io''\<rparr>
      \<lparr>forms_get = (\<lambda>c f. Inr (JObj [(''formId'', f), (''info'', JObj [(''title'', JStr ''T'')])])),
       responses_list = (\<lambda>c f n. Inr (JObj []))\<rparr>
      [''bob'' \<mapsto> \<lparr>token = ''t1'', refresh_token = Some ''r1''\<rparr>]
      (JObj [(''id'', JStr ''b''), (''method'', JStr ''tools/call''),
             (''params'', JObj [(''name'', JStr ''forms.get_form''),
                                (''arguments'', JObj [(''formId'', JStr ''F'')])]),
             (''meta'', JObj [(''user_id'', JStr ''alice'')])])
   = (Inl (KeyError ''form_id''), [])"
proof -
  let ?cfg = "\<lparr>GOOGLE_CLIENT_ID = None, GOOGLE_CLIENT_SECRET = None,
               env_BASE_URL = Some ''https://x.io''\<rparr>"
  let ?be = "\<lparr>forms_get = (\<lambda>c f. Inr (JObj [(''formId'', f), (''info'', JObj [(''title'', JStr ''T'')])])),
              responses_list = (\<lambda>c f n. Inr (JObj []))\<rparr>"
  let ?st = "[''bob'' \<mapsto> \<lparr>token = ''t1'', refresh_token = Some ''r1''\<rparr>]"
  let ?ps = "[(''name'', JStr ''forms.get_form''),
              (''arguments'', JObj [(''form_id'', JStr ''F'')])]"
  let ?qs = "[(''name'', JStr ''forms.get_form''),
              (''arguments'', JObj [(''formId'', JStr ''F'')])]"
  let ?p = "JObj [(''id'', JStr ''a''), (''method'', JStr ''tools/call''), (''params'', JObj ?ps),
                  (''meta'', JObj [(''user_id'', JStr ''alice'')])]"
  let ?q = "JObj [(''id'', JStr ''b''), (''method'', JStr ''tools/call''), (''params'', JObj ?qs),
                  (''meta'', JObj [(''user_id'', JStr ''alice'')])]"
  have up: "get_user_id ?p = Inr (JStr ''alice'')" and uq: "get_user_id ?q = Inr (JStr ''alice'')"
    by (simp_all add: get_user_id_def bind_exn_def)
  have none: "?st ''alice'' = None" by simp
  have mp: "field ?p ''method'' = Some (JStr ''tools/call'')"
    and mq: "field ?q ''method'' = Some (JStr ''tools/call'')" by simp_all
  have pp: "field ?p ''params'' = Some (JObj ?ps)"
    and pq: "field ?q ''params'' = Some (JObj ?qs)" by simp_all
  have np: "map_of ?ps ''name'' = Some (JStr ''forms.get_form'')"
    and nq: "map_of ?qs ''name'' = Some (JStr ''forms.get_form'')" by simp_all
  have tool: "''forms.get_form'' = ''forms.get_form'' \<or> ''forms.get_form'' = ''forms.list_responses''"
    by simp
  have args: "map_of ?ps ''arguments'' = Some (JObj [(''form_id'', JStr ''F'')])
              \<and> map_of [(''form_id'', JStr ''F'')] ''form_id'' = Some (JStr ''F'')"
    by simp
  have miss: "map_of ?qs ''arguments'' = None
              \<or> (\<exists>as. map_of ?qs ''arguments'' = Some (JObj as) \<and> map_of as ''form_id'' = None)"
    by simp
  note g = gate_before_upstream_work
      [where persisted = ?st and u = "''alice''", OF up none mp pp np tool, of ?cfg ?be]
  note g5 = g [THEN conjunct2, THEN conjunct2, THEN conjunct2, THEN conjunct2, THEN conjunct1,
               rule_format, OF args]
  note k = gate_before_upstream_work
      [where persisted = ?st and u = "''alice''", OF uq none mq pq nq tool, of ?cfg ?be]
  note k7 = k [THEN conjunct2, THEN conjunct2, THEN conjunct2, THEN conjunct2, THEN conjunct2,
               THEN conjunct2, rule_format, OF miss]
  show ?thesis
    using g5 k7 by simp
qed

subsection \<open>Response envelopes\<close>

text \<open>
  C9. Every response the handler returns, whatever the request, the store and the
  backend, carries an \<^verbatim>\<open>id\<close> field equal to the \<^verbatim>\<open>id\<close> of the request, and null when the
  request has none.
\<close>

theorem response_carries_request_id:
  assumes "mcp_handler cfg backend persisted payload = (Inr resp, evs)"
  shows "field (content resp) ''id'' =
           Some (case field payload ''id'' of None \<Rightarrow> JNull | Some v \<Rightarrow> v)"
  using assms by (rule mcp_handler_id)

theorem response_carries_request_id_witness:
  "field (content (returned (JObj [(''jsonrpc'', JStr ''2.0''), (''id'', JInt 42),
                                   (''result'', server_info)]))) ''id'' = Some (JInt 42)
   \<and> field (content (method_not_found JNull)) ''id'' = Some JNull"
proof -
  let ?cfg = "\<lparr>GOOGLE_CLIENT_ID = None, GOOGLE_CLIENT_SECRET = None, env_BASE_URL = None\<rparr>"
  let ?be = "\<lparr>forms_get = (\<lambda>c f. Inl (UpstreamError ''down'')),
              responses_list = (\<lambda>c f n. Inl (UpstreamError ''down''))\<rparr>"
  have a: "mcp_handler ?cfg ?be Map.empty
             (JObj [(''id'', JInt 42), (''method'', JStr ''initialize'')])
           = (Inr (returned (JObj [(''jsonrpc'', JStr ''2.0''), (''id'', JInt 42),
                                   (''result'', server_info)])), [])"
    by (simp add: mcp_handler_def get_user_id_def bind_exn_def)
  have b: "mcp_handler ?cfg ?be Map.empty (JObj [(''method'', JStr ''foo'')])
           = (Inr (method_not_found JNull), [])"
    by (simp add: mcp_handler_def get_user_id_def bind_exn_def)
  show ?thesis
    using response_carries_request_id [OF a] response_carries_request_id [OF b]
    by simp
qed

text \<open>
  C10. For a user with a stored record, when the Forms API answers a
  \<^verbatim>\<open>forms.list_responses\<close> call with an object, the success envelope holds under
  \<^verbatim>\<open>result.content[0].json\<close> the bare array found under \<^verbatim>\<open>responses\<close>, and the empty
  list when the answer has no \<^verbatim>\<open>responses\<close> field.
\<close>

theorem list_responses_content:
  assumes user: "get_user_id payload = Inr (JStr u)"
    and stored: "persisted u = Some r"
    and meth: "field payload ''method'' = Some (JStr ''tools/call'')"
    and params: "field payload ''params'' = Some (JObj ps)"
    and name: "map_of ps ''name'' = Some (JStr ''forms.list_responses'')"
    and args: "map_of ps ''arguments'' = Some (JObj as)"
    and form_id: "map_of as ''form_id'' = Some form_id"
    and reply: "responses_list backend (make_credentials cfg r) form_id
                  (case map_of as ''max_results'' of None \<Rightarrow> JInt 5 | Some n \<Rightarrow> n)
                = Inr (JObj reply)"
  shows "(map_of reply ''responses'' = None \<longrightarrow>
            fst (mcp_handler cfg backend persisted payload) =
              Inr \<lparr>status_code = 200,
                   content =
                     JObj [(''jsonrpc'', JStr ''2.0''),
                           (''id'', case field payload ''id'' of None \<Rightarrow> JNull | Some v \<Rightarrow> v),
                           (''result'',
                            JObj [(''content'',
                                   JArr [JObj [(''type'', JStr ''json''),
                                               (''json'', JArr [])]])])]\<rparr>)
       \<and> (\<forall>rs. map_of reply ''responses'' = Some (JArr rs) \<longrightarrow>
            fst (mcp_handler cfg backend persisted payload) =
              Inr \<lparr>status_code = 200,
                   content =
                     JObj [(''jsonrpc'', JStr ''2.0''),
                           (''id'', case field payload ''id'' of None \<Rightarrow> JNull | Some v \<Rightarrow> v),
                           (''result'',
                            JObj [(''content'',
                                   JArr [JObj [(''type'', JStr ''json''),
                                               (''json'', JArr rs)]])])]\<rparr>)"
  unfolding mcp_handler_list_responses [OF user meth params name args form_id]
    forms_list_responses_record [where persisted = persisted and u = u, OF stored]
  using reply
  by (simp add: bind_exn_def AUTH_REQUIRED_def returned_def)

theorem list_responses_content_witness:
  "fst (mcp_handler \<lparr>GOOGLE_CLIENT_ID = Some ''cid'', GOOGLE_CLIENT_SECRET = Some ''sec'',
                     env_BASE_URL = Some ''https://x.io''\<rparr>
      \<lparr>forms_get = (\<lambda>c f. Inl (UpstreamError ''down'')),
       responses_list = (\<lambda>c f n. Inr (JObj []))\<rparr>
      [''alice'' \<mapsto> \<lparr>token = ''t1'', refresh_token = Some ''r1''\<rparr>]
      (JObj [(''id'', JInt 6), (''method'', JStr ''tools/call''),
             (''params'', JObj [(''name'', JStr ''forms.list_responses''),
                                (''arguments'', JObj [(''form_id'', JStr ''F'')])]),
             (''meta'', JObj [(''user_id'', JStr ''alice'')])]))
   = Inr \<lparr>status_code = 200,
          content =
            JObj [(''jsonrpc'', JStr ''2.0''), (''id'', JInt 6),
                  (''result'',
                   JObj [(''content'',
                          JArr [JObj [(''type'', JStr ''json''), (''json'', JArr [])]])])]\<rparr>
   \<and> fst (mcp_handler \<lparr>GOOGLE_CLIENT_ID = Some ''cid'', GOOGLE_CLIENT_SECRET = Some ''sec'',
                     env_BASE_URL = Some ''https://x.io''\<rparr>
      \<lparr>forms_get = (\<lambda>c f. Inl (UpstreamError ''down'')),
       responses_list = (\<lambda>c f n. Inr (JObj [(''responses'',
                                     JArr [JObj [(''responseId'', JStr ''R1'')]])]))\<rparr>
      [''alice'' \<mapsto> \<lparr>token = ''t1'', refresh_token = Some ''r1''\<rparr>]
      (JObj [(''id'', JInt 6), (''method'', JStr ''tools/call''),
             (''params'', JObj [(''name'', JStr ''forms.list_responses''),
                                (''arguments'', JObj [(''form_id'', JStr ''F'')])]),
             (''meta'', JObj [(''user_id'', JStr ''alice'')])]))
   = Inr \<lparr>status_code = 200,
          content =
            JObj [(''jsonrpc'', JStr ''2.0''), (''id'', JInt 6),
                  (''result'',
                   JObj [(''content'',
                          JArr [JObj [(''type'', JStr ''json''),
                                      (''json'', JArr [JObj [(''responseId'', JStr ''R1'')]])]])])]\<rparr>"
proof -
  let ?cfg = "\<lparr>GOOGLE_CLIENT_ID = Some ''cid'', GOOGLE_CLIENT_SECRET = Some ''sec'',
               env_BASE_URL = Some ''https://x.io''\<rparr>"
  let ?be1 = "\<lparr>forms_get = (\<lambda>c f. Inl (UpstreamError ''down'')),
               responses_list = (\<lambda>c f n. Inr (JObj []))\<rparr>"
  let ?be2 = "\<lparr>forms_get = (\<lambda>c f. Inl (UpstreamError ''down'')),
               responses_list = (\<lambda>c f n. Inr (JObj [(''responses'',
                                     JArr [JObj [(''responseId'', JStr ''R1'')]])]))\<rparr>"
  let ?r = "\<lparr>token = ''t1'', refresh_token = Some ''r1''\<rparr>"
  let ?st = "[''alice'' \<mapsto> ?r]"
  let ?as = "[(''form_id'', JStr ''F'')]"
  let ?ps = "[(''name'', JStr ''forms.list_responses''), (''arguments'', JObj ?as)]"
  let ?p = "JObj [(''id'', JInt 6), (''method'', JStr ''tools/call''), (''params'', JObj ?ps),
                  (''meta'', JObj [(''user_id'', JStr ''alice'')])]"
  have u: "get_user_id ?p = Inr (JStr ''alice'')"
    by (simp add: get_user_id_def bind_exn_def)
  have st: "?st ''alice'' = Some ?r" by simp
  have m: "field ?p ''method'' = Some (JStr ''tools/call'')" by simp
  have q: "field ?p ''params'' = Some (JObj ?ps)" by simp
  have n: "map_of ?ps ''name'' = Some (JStr ''forms.list_responses'')" by simp
  have a: "map_of ?ps ''arguments'' = Some (JObj ?as)" by simp
  have f: "map_of ?as ''form_id'' = Some (JStr ''F'')" by simp
  have b1: "responses_list ?be1 (make_credentials ?cfg ?r) (JStr ''F'')
              (case map_of ?as ''max_results'' of None \<Rightarrow> JInt 5 | Some n \<Rightarrow> n) = Inr (JObj [])"
    by simp
  have b2: "responses_list ?be2 (make_credentials ?cfg ?r) (JStr ''F'')
              (case map_of ?as ''max_results'' of None \<Rightarrow> JInt 5 | Some n \<Rightarrow> n)
            = Inr (JObj [(''responses'', JArr [JObj [(''responseId'', JStr ''R1'')]])])"
    by simp
  have e1: "map_of ([] :: (string \<times> json) list) ''responses'' = None" by simp
  have e2: "map_of [(''responses'', JArr [JObj [(''responseId'', JStr ''R1'')]])] ''responses''
            = Some (JArr [JObj [(''responseId'', JStr ''R1'')]])" by simp
  note r1 = list_responses_content [where persisted = ?st and u = "''alice''",
      OF u st m q n a f b1, THEN conjunct1, rule_format, OF e1]
  note r2 = list_responses_content [where persisted = ?st and u = "''alice''",
      OF u st m q n a f b2, THEN conjunct2, rule_format, OF e2]
  show ?thesis
    using r1 r2 by simp
qed

subsection \<open>Tool catalogue and arguments\<close>

text \<open>
  C5, as the claim states it, fails on its last part: a \<^verbatim>\<open>tools/call\<close> that omits
  \<^verbatim>\<open>form_id\<close> is not answered with an envelope. The lookup \<^verbatim>\<open>args["form_id"]\<close> raises
  KeyError and nothing in the handler catches it.
\<close>

theorem list_responses_without_form_id_counterexample:
  "mcp_handler \<lparr>GOOGLE_CLIENT_ID = None, GOOGLE_CLIENT_SECRET = None,
                 env_BASE_URL = Some ''https://x.io''\<rparr>
      \<lparr>forms_get = (\<lambda>c f. Inl (UpstreamError ''down'')),
       responses_list = (\<lambda>c f n. Inr (JObj [(''responses'', JArr [])]))\<rparr>
      [''bob'' \<mapsto> \<lparr>token = ''t1'', refresh_token = Some ''r1''\<rparr>]
      (JObj [(''id'', JInt 2), (''method'', JStr ''tools/call''),
             (''params'', JObj [(''name'', JStr ''forms.list_responses''),
                                (''arguments'', JObj [(''max_results'', JInt 3)])]),
             (''meta'', JObj [(''user_id'', JStr ''bob'')])])
   = (Inl (KeyError ''form_id''), [])"
  by (simp add: mcp_handler_def get_user_id_def bind_exn_def tools_call_def)

text \<open>
  C5, amended. The \<^verbatim>\<open>tools/list\<close> result holds exactly two tool descriptors,
  \<^verbatim>\<open>forms.get_form\<close> and \<^verbatim>\<open>forms.list_responses\<close>, in this order; apart from the echoed
  id it is the same on every call, whatever the store, the configuration and the backend;
  both descriptors declare \<^verbatim>\<open>required: ["form_id"]\<close>. A \<^verbatim>\<open>tools/call\<close> of either tool
  whose arguments are absent or an object without \<^verbatim>\<open>form_id\<close> is rejected before the
  store is read and before any upstream call, by the exception \<^verbatim>\<open>KeyError('form_id')\<close>
  and not by an envelope.
\<close>

theorem tools_list_fixed_and_form_id_required:
  shows "(\<forall>payload user_id.
            get_user_id payload = Inr user_id
            \<and> field payload ''method'' = Some (JStr ''tools/list'') \<longrightarrow>
            mcp_handler cfg backend persisted payload =
              (Inr \<lparr>status_code = 200,
                    content =
                      JObj [(''jsonrpc'', JStr ''2.0''),
                            (''id'', case field payload ''id'' of None \<Rightarrow> JNull | Some v \<Rightarrow> v),
                            (''result'', JObj [(''tools'', JArr tools)])]\<rparr>, []))
       \<and> map (\<lambda>t. field t ''name'') tools
            = [Some (JStr ''forms.get_form''), Some (JStr ''forms.list_responses'')]
       \<and> map (\<lambda>t. Option.bind (field t ''inputSchema'') (\<lambda>s. field s ''required'')) tools
            = [Some (JArr [JStr ''form_id'']), Some (JArr [JStr ''form_id''])]
       \<and> (\<forall>payload user_id ps tool.
            get_user_id payload = Inr user_id
            \<and> field payload ''method'' = Some (JStr ''tools/call'')
            \<and> field payload ''params'' = Some (JObj ps)
            \<and> map_of ps ''name'' = Some (JStr tool)
            \<and> (tool = ''forms.get_form'' \<or> tool = ''forms.list_responses'')
            \<and> (map_of ps ''arguments'' = None
                \<or> (\<exists>as. map_of ps ''arguments'' = Some (JObj as) \<and> map_of as ''form_id'' = None))
            \<longrightarrow>
            mcp_handler cfg backend persisted payload = (Inl (KeyError ''form_id''), []))"
proof (intro conjI allI impI)
  fix payload user_id
  assume "get_user_id payload = Inr user_id
            \<and> field payload ''method'' = Some (JStr ''tools/list'')"
  then show "mcp_handler cfg backend persisted payload =
              (Inr \<lparr>status_code = 200,
                    content =
                      JObj [(''jsonrpc'', JStr ''2.0''),
                            (''id'', case field payload ''id'' of None \<Rightarrow> JNull | Some v \<Rightarrow> v),
                            (''result'', JObj [(''tools'', JArr tools)])]\<rparr>, [])"
    using mcp_handler_tools_list [of payload user_id cfg backend persisted]
    by (simp add: returned_def)
next
  show "map (\<lambda>t. field t ''name'') tools
            = [Some (JStr ''forms.get_form''), Some (JStr ''forms.list_responses'')]"
    by (simp add: tools_def)
next
  show "map (\<lambda>t. Option.bind (field t ''inputSchema'') (\<lambda>s. field s ''required'')) tools
            = [Some (JArr [JStr ''form_id'']), Some (JArr [JStr ''form_id''])]"
    by (simp add: tools_def)
next
  fix payload user_id ps tool
  assume a: "get_user_id payload = Inr user_id
            \<and> field payload ''method'' = Some (JStr ''tools/call'')
            \<and> field payload ''params'' = Some (JObj ps)
            \<and> map_of ps ''name'' = Some (JStr tool)
            \<and> (tool = ''forms.get_form'' \<or> tool = ''forms.list_responses'')
            \<and> (map_of ps ''arguments'' = None
                \<or> (\<exists>as. map_of ps ''arguments'' = Some (JObj as) \<and> map_of as ''form_id'' = None))"
  show "mcp_handler cfg backend persisted payload = (Inl (KeyError ''form_id''), [])"
    by (rule mcp_handler_no_form_id [where user_id = user_id and ps = ps and tool = tool])
       (use a in blast)+
qed

theorem tools_list_fixed_and_form_id_required_witness:
  "mcp_handler \<lparr>GOOGLE_CLIENT_ID = None, GOOGLE_CLIENT_SECRET = None, env_BASE_URL = None\<rparr>
      \<lparr>forms_get = (\<lambda>c f. Inl (UpstreamError ''down'')),
       responses_list = (\<lambda>c f n. Inl (UpstreamError ''down''))\<rparr>
      Map.empty
      (JObj [(''id'', JInt 3), (''method'', JStr ''tools/list'')])
   = (Inr \<lparr>status_code = 200,
           content = JObj [(''jsonrpc'', JStr ''2.0''), (''id'', JInt 3),
                           (''result'', JObj [(''tools'', JArr tools)])]\<rparr>, [])
   \<and> mcp_handler \<lparr>GOOGLE_CLIENT_ID = None, GOOGLE_CLIENT_SECRET = None, env_BASE_URL = None\<rparr>
      \<lparr>forms_get = (\<lambda>c f. Inl (UpstreamError ''down'')),
       responses_list = (\<lambda>c f n. Inl (UpstreamError ''down''))\<rparr>
      Map.empty
      (JObj [(''id'', JInt 4), (''method'', JStr ''tools/call''),
             (''params'', JObj [(''name'', JStr ''forms.get_form'')])])
   = (Inl (KeyError ''form_id''), [])"
proof -
  let ?cfg = "\<lparr>GOOGLE_CLIENT_ID = None, GOOGLE_CLIENT_SECRET = None, env_BASE_URL = None\<rparr>"
  let ?be = "\<lparr>forms_get = (\<lambda>c f. Inl (UpstreamError ''down'')),
              responses_list = (\<lambda>c f n. Inl (UpstreamError ''down''))\<rparr>"
  let ?p = "JObj [(''id'', JInt 3), (''method'', JStr ''tools/list'')]"
  let ?q = "JObj [(''id'', JInt 4), (''method'', JStr ''tools/call''),
                  (''params'', JObj [(''name'', JStr ''forms.get_form'')])]"
  note t = tools_list_fixed_and_form_id_required [of ?cfg ?be Map.empty]
  have hp: "get_user_id ?p = Inr (JStr ''default'')
            \<and> field ?p ''method'' = Some (JStr ''tools/list'')"
    by (simp add: get_user_id_def bind_exn_def)
  have hq: "get_user_id ?q = Inr (JStr ''default'')
            \<and> field ?q ''method'' = Some (JStr ''tools/call'')
            \<and> field ?q ''params'' = Some (JObj [(''name'', JStr ''forms.get_form'')])
            \<and> map_of [(''name'', JStr ''forms.get_form'')] ''name'' = Some (JStr ''forms.get_form'')
            \<and> (''forms.get_form'' = ''forms.get_form'' \<or> ''forms.get_form'' = ''forms.list_responses'')
            \<and> (map_of [(''name'', JStr ''forms.get_form'')] ''arguments'' = None
                \<or> (\<exists>as. map_of [(''name'', JStr ''forms.get_form'')] ''arguments'' = Some (JObj as)
                         \<and> map_of as ''form_id'' = None))"
    by (simp add: get_user_id_def bind_exn_def)
  note a = t [THEN conjunct1, rule_format, OF hp]
  note b = t [THEN conjunct2, THEN conjunct2, THEN conjunct2, rule_format, OF hq]
  show ?thesis
    using a b by simp
qed

text \<open>
  C7. In a \<^verbatim>\<open>tools/call\<close> of \<^verbatim>\<open>forms.list_responses\<close>, \<^verbatim>\<open>form_id\<close> is required: without
  it the call stops with KeyError. With it, the answer and the effects of the handler are
  those of \<^verbatim>\<open>forms_list_responses\<close> run on the user id, the \<^verbatim>\<open>form_id\<close> as given, and
  \<^verbatim>\<open>max_results\<close> as given, or 5 when the arguments omit it. For a user with a stored
  record the Forms API is asked exactly once, for that form id with that page size, and
  the answer of the handler is built from what the API replies to these arguments.
\<close>

theorem list_responses_max_results:
  assumes user: "get_user_id payload = Inr user_id"
    and meth: "field payload ''method'' = Some (JStr ''tools/call'')"
    and params: "field payload ''params'' = Some (JObj ps)"
    and name: "map_of ps ''name'' = Some (JStr ''forms.list_responses'')"
    and args: "map_of ps ''arguments'' = Some (JObj as)"
    and max_results: "max_results = (case map_of as ''max_results'' of None \<Rightarrow> JInt 5 | Some n \<Rightarrow> n)"
  shows "(map_of as ''form_id'' = None \<longrightarrow>
            mcp_handler cfg backend persisted payload = (Inl (KeyError ''form_id''), []))
       \<and> (\<forall>form_id. map_of as ''form_id'' = Some form_id \<longrightarrow>
            mcp_handler cfg backend persisted payload =
              (case forms_list_responses cfg backend persisted user_id form_id max_results of
                 (Inl e, evs) \<Rightarrow> (Inl e, evs)
               | (Inr res, evs) \<Rightarrow>
                   if res = AUTH_REQUIRED then
                     (Inr (returned (auth_error cfg
                        (case field payload ''id'' of None \<Rightarrow> JNull | Some v \<Rightarrow> v) user_id)), evs)
                   else
                     (Inr (returned
                       (JObj [(''jsonrpc'', JStr ''2.0''),
                              (''id'', case field payload ''id'' of None \<Rightarrow> JNull | Some v \<Rightarrow> v),
                              (''result'',
                               JObj [(''content'',
                                      JArr [JObj [(''type'', JStr ''json''),
                                                  (''json'', res)]])])])), evs))
            \<and> snd (mcp_handler cfg backend persisted payload)
                = snd (forms_list_responses cfg backend persisted user_id form_id max_results)
            \<and> (\<forall>u r. user_id = JStr u \<and> persisted u = Some r \<longrightarrow>
                 mcp_handler cfg backend persisted payload =
                   (case responses_list backend (make_credentials cfg r) form_id max_results of
                      Inl e \<Rightarrow> Inl e
                    | Inr reply \<Rightarrow>
                        (case py_get reply ''responses'' (JArr []) of
                           Inl e \<Rightarrow> Inl e
                         | Inr res \<Rightarrow>
                             Inr (returned
                               (if res = AUTH_REQUIRED then
                                  auth_error cfg
                                    (case field payload ''id'' of None \<Rightarrow> JNull | Some v \<Rightarrow> v)
                                    user_id
                                else
                                  JObj [(''jsonrpc'', JStr ''2.0''),
                                        (''id'', case field payload ''id'' of
                                                   None \<Rightarrow> JNull | Some v \<Rightarrow> v),
                                        (''result'',
                                         JObj [(''content'',
                                                JArr [JObj [(''type'', JStr ''json''),
                                                            (''json'', res)]])])]))),
                    [Load_tokens, Build_credentials (make_credentials cfg r),
                     Responses_list (make_credentials cfg r) form_id max_results])))"
proof (intro conjI allI impI)
  assume "map_of as ''form_id'' = None"
  then show "mcp_handler cfg backend persisted payload = (Inl (KeyError ''form_id''), [])"
    using mcp_handler_no_form_id [OF user meth params name] args by simp
next
  fix form_id
  assume f: "map_of as ''form_id'' = Some form_id"
  note h = mcp_handler_list_responses [OF user meth params name args f, of cfg backend persisted]
  show "mcp_handler cfg backend persisted payload =
              (case forms_list_responses cfg backend persisted user_id form_id max_results of
                 (Inl e, evs) \<Rightarrow> (Inl e, evs)
               | (Inr res, evs) \<Rightarrow>
                   if res = AUTH_REQUIRED then
                     (Inr (returned (auth_error cfg
                        (case field payload ''id'' of None \<Rightarrow> JNull | Some v \<Rightarrow> v) user_id)), evs)
                   else
                     (Inr (returned
                       (JObj [(''jsonrpc'', JStr ''2.0''),
                              (''id'', case field payload ''id'' of None \<Rightarrow> JNull | Some v \<Rightarrow> v),
                              (''result'',
                               JObj [(''content'',
                                      JArr [JObj [(''type'', JStr ''json''),
                                                  (''json'', res)]])])])), evs))"
    unfolding h max_results by (rule refl)
  show "snd (mcp_handler cfg backend persisted payload)
          = snd (forms_list_responses cfg backend persisted user_id form_id max_results)"
    unfolding h max_results by (simp split: prod.splits sum.splits)
  fix u r
  assume ur: "user_id = JStr u \<and> persisted u = Some r"
  then have st: "persisted u = Some r" and uid: "user_id = JStr u" by simp_all
  show "mcp_handler cfg backend persisted payload =
                   (case responses_list backend (make_credentials cfg r) form_id max_results of
                      Inl e \<Rightarrow> Inl e
                    | Inr reply \<Rightarrow>
                        (case py_get reply ''responses'' (JArr []) of
                           Inl e \<Rightarrow> Inl e
                         | Inr res \<Rightarrow>
                             Inr (returned
                               (if res = AUTH_REQUIRED then
                                  auth_error cfg
                                    (case field payload ''id'' of None \<Rightarrow> JNull | Some v \<Rightarrow> v)
                                    user_id
                                else
                                  JObj [(''jsonrpc'', JStr ''2.0''),
                                        (''id'', case field payload ''id'' of
                                                   None \<Rightarrow> JNull | Some v \<Rightarrow> v),
                                        (''result'',
                                         JObj [(''content'',
                                                JArr [JObj [(''type'', JStr ''json''),
                                                            (''json'', res)]])])]))),
                    [Load_tokens, Build_credentials (make_credentials cfg r),
                     Responses_list (make_credentials cfg r) form_id max_results])"
    unfolding h max_results uid
      forms_list_responses_record [where persisted = persisted and u = u, OF st]
    by (simp add: bind_exn_def split: sum.splits)
qed

theorem list_responses_max_results_witness:
  "mcp_handler \<lparr>GOOGLE_CLIENT_ID = Some ''cid'', GOOGLE_CLIENT_SECRET = Some ''sec'',
                     env_BASE_URL = Some ''https://x.io''\<rparr>
      \<lparr>forms_get = (\<lambda>c f. Inl (UpstreamError ''down'')),
       responses_list = (\<lambda>c f n. Inr (JObj [(''responses'', JArr [f, n])]))\<rparr>
      [''alice'' \<mapsto> \<lparr>token = ''t1'', refresh_token = Some ''r1''\<rparr>]
      (JObj [(''id'', JInt 5), (''method'', JStr ''tools/call''),
             (''params'', JObj [(''name'', JStr ''forms.list_responses''),
                                (''arguments'', JObj [(''form_id'', JStr ''F'')])]),
             (''meta'', JObj [(''user_id'', JStr ''alice'')])])
   = (Inr \<lparr>status_code = 200,
           content =
             JObj [(''jsonrpc'', JStr ''2.0''), (''id'', JInt 5),
                   (''result'',
                    JObj [(''content'',
                           JArr [JObj [(''type'', JStr ''json''),
                                       (''json'', JArr [JStr ''F'', JInt 5])]])])]\<rparr>,
      [Load_tokens,
       Build_credentials
        (make_credentials \<lparr>GOOGLE_CLIENT_ID = Some ''cid'', GOOGLE_CLIENT_SECRET = Some ''sec'',
                            env_BASE_URL = Some ''https://x.io''\<rparr>
           \<lparr>token = ''t1'', refresh_token = Some ''r1''\<rparr>),
       Responses_list
        (make_credentials \<lparr>GOOGLE_CLIENT_ID = Some ''cid'', GOOGLE_CLIENT_SECRET = Some ''sec'',
                            env_BASE_URL = Some ''https://x.io''\<rparr>
           \<lparr>token = ''t1'', refresh_token = Some ''r1''\<rparr>)
        (JStr ''F'') (JInt 5)])
   \<and> mcp_handler \<lparr>GOOGLE_CLIENT_ID = Some ''cid'', GOOGLE_CLIENT_SECRET = Some ''sec'',
                     env_BASE_URL = Some ''https://x.io''\<rparr>
      \<lparr>forms_get = (\<lambda>c f. Inl (UpstreamError ''down'')),
       responses_list = (\<lambda>c f n. Inr (JObj [(''responses'', JArr [f, n])]))\<rparr>
      [''alice'' \<mapsto> \<lparr>token = ''t1'', refresh_token = Some ''r1''\<rparr>]
      (JObj [(''id'', JInt 5), (''method'', JStr ''tools/call''),
             (''params'', JObj [(''name'', JStr ''forms.list_responses''),
                                (''arguments'', JObj [(''form_id'', JStr ''F''),
                                                      (''max_results'', JInt 20)])]),
             (''meta'', JObj [(''user_id'', JStr ''alice'')])])
   = (Inr \<lparr>status_code = 200,
           content =
             JObj [(''jsonrpc'', JStr ''2.0''), (''id'', JInt 5),
                   (''result'',
                    JObj [(''content'',
                           JArr [JObj [(''type'', JStr ''json''),
                                       (''json'', JArr [JStr ''F'', JInt 20])]])])]\<rparr>,
      [Load_tokens,
       Build_credentials
        (make_credentials \<lparr>GOOGLE_CLIENT_ID = Some ''cid'', GOOGLE_CLIENT_SECRET = Some ''sec'',
                            env_BASE_URL = Some ''https://x.io''\<rparr>
           \<lparr>token = ''t1'', refresh_token = Some ''r1''\<rparr>),
       Responses_list
        (make_credentials \<lparr>GOOGLE_CLIENT_ID = Some ''cid'', GOOGLE_CLIENT_SECRET = Some ''sec'',
                            env_BASE_URL = Some ''https://x.io''\<rparr>
           \<lparr>token = ''t1'', refresh_token = Some ''r1''\<rparr>)
        (JStr ''F'') (JInt 20)])"
proof -
  let ?cfg = "\<lparr>GOOGLE_CLIENT_ID = Some ''cid'', GOOGLE_CLIENT_SECRET = Some ''sec'',
               env_BASE_URL = Some ''https://x.io''\<rparr>"
  let ?be = "\<lparr>forms_get = (\<lambda>c f. Inl (UpstreamError ''down'')),
              responses_list = (\<lambda>c f n. Inr (JObj [(''responses'', JArr [f, n])]))\<rparr>"
  let ?st = "[''alice'' \<mapsto> \<lparr>token = ''t1'', refresh_token = Some ''r1''\<rparr>]"
  let ?as1 = "[(''form_id'', JStr ''F'')]"
  let ?as2 = "[(''form_id'', JStr ''F''), (''max_results'', JInt 20)]"
  let ?ps1 = "[(''name'', JStr ''forms.list_responses''), (''arguments'', JObj ?as1)]"
  let ?ps2 = "[(''name'', JStr ''forms.list_responses''), (''arguments'', JObj ?as2)]"
  let ?p1 = "JObj [(''id'', JInt 5), (''method'', JStr ''tools/call''), (''params'', JObj ?ps1),
                   (''meta'', JObj [(''user_id'', JStr ''alice'')])]"
  let ?p2 = "JObj [(''id'', JInt 5), (''method'', JStr ''tools/call''), (''params'', JObj ?ps2),
                   (''meta'', JObj [(''user_id'', JStr ''alice'')])]"
  have u1: "get_user_id ?p1 = Inr (JStr ''alice'')" and u2: "get_user_id ?p2 = Inr (JStr ''alice'')"
    by (simp_all add: get_user_id_def bind_exn_def)
  have m1: "field ?p1 ''method'' = Some (JStr ''tools/call'')"
    and m2: "field ?p2 ''method'' = Some (JStr ''tools/call'')" by simp_all
  have q1: "field ?p1 ''params'' = Some (JObj ?ps1)"
    and q2: "field ?p2 ''params'' = Some (JObj ?ps2)" by simp_all
  have n1: "map_of ?ps1 ''name'' = Some (JStr ''forms.list_responses'')"
    and n2: "map_of ?ps2 ''name'' = Some (JStr ''forms.list_responses'')" by simp_all
  have a1: "map_of ?ps1 ''arguments'' = Some (JObj ?as1)"
    and a2: "map_of ?ps2 ''arguments'' = Some (JObj ?as2)" by simp_all
  have d1: "JInt 5 = (case map_of ?as1 ''max_results'' of None \<Rightarrow> JInt 5 | Some n \<Rightarrow> n)"
    and d2: "JInt 20 = (case map_of ?as2 ''max_results'' of None \<Rightarrow> JInt 5 | Some n \<Rightarrow> n)"
    by simp_all
  have f1: "map_of ?as1 ''form_id'' = Some (JStr ''F'')"
    and f2: "map_of ?as2 ''form_id'' = Some (JStr ''F'')" by simp_all
  have s: "JStr ''alice'' = JStr ''alice''
           \<and> ?st ''alice'' = Some \<lparr>token = ''t1'', refresh_token = Some ''r1''\<rparr>"
    by simp
  note r1 = list_responses_max_results [OF u1 m1 q1 n1 a1 d1, of ?cfg ?be ?st,
      THEN conjunct2, rule_format, OF f1, THEN conjunct2, THEN conjunct2, rule_format, OF s]
  note r2 = list_responses_max_results [OF u2 m2 q2 n2 a2 d2, of ?cfg ?be ?st,
      THEN conjunct2, rule_format, OF f2, THEN conjunct2, THEN conjunct2, rule_format, OF s]
  have c1: "mcp_handler ?cfg ?be ?st ?p1 =
     (Inr \<lparr>status_code = 200,
           content =
             JObj [(''jsonrpc'', JStr ''2.0''), (''id'', JInt 5),
                   (''result'',
                    JObj [(''content'',
                           JArr [JObj [(''type'', JStr ''json''),
                                       (''json'', JArr [JStr ''F'', JInt 5])]])])]\<rparr>,
      [Load_tokens,
       Build_credentials (make_credentials ?cfg \<lparr>token = ''t1'', refresh_token = Some ''r1''\<rparr>),
       Responses_list (make_credentials ?cfg \<lparr>token = ''t1'', refresh_token = Some ''r1''\<rparr>)
         (JStr ''F'') (JInt 5)])"
    unfolding r1 by (simp add: returned_def AUTH_REQUIRED_def)
  have c2: "mcp_handler ?cfg ?be ?st ?p2 =
     (Inr \<lparr>status_code = 200,
           content =
             JObj [(''jsonrpc'', JStr ''2.0''), (''id'', JInt 5),
                   (''result'',
                    JObj [(''content'',
                           JArr [JObj [(''type'', JStr ''json''),
                                       (''json'', JArr [JStr ''F'', JInt 20])]])])]\<rparr>,
      [Load_tokens,
       Build_credentials (make_credentials ?cfg \<lparr>token = ''t1'', refresh_token = Some ''r1''\<rparr>),
       Responses_list (make_credentials ?cfg \<lparr>token = ''t1'', refresh_token = Some ''r1''\<rparr>)
         (JStr ''F'') (JInt 20)])"
    unfolding r2 by (simp add: returned_def AUTH_REQUIRED_def)
  show ?thesis
    using c1 c2 by (intro conjI)
qed

end
